theory Spec2Isabelle
  imports Complex_Main "HOL-Library.Sublist" "HOL-Library.AList"
begin

section \<open>Values and the JavaScript runtime\<close>

text \<open>
  The monitoring service receives JSON bodies and passes JavaScript objects between its
  components. A value is a JSON tree, to which the objects the code builds add two
  things that JSON does not have: a key whose value is \<open>undefined\<close>, and a \<open>Date\<close>
  (the clock reading it holds, in milliseconds). An object keeps its keys in insertion
  order. Numbers are IEEE doubles in the source and exact reals here: the scores below
  are sums of a few decimal constants, compared with \<open>min\<close>, \<open>max\<close> and thresholds.
\<close>

datatype json =
    JNull
  | JUndefined
  | JBool bool
  | JNum real
  | JStr string
  | JDate nat
  | JArr "json list"
  | JObj "(string \<times> json) list"

text \<open>
  Property access \<open>o.k\<close>: \<open>None\<close> is \<open>undefined\<close>, for a key that is missing as for
  a key that holds \<open>undefined\<close>.
\<close>

fun field :: "json \<Rightarrow> string \<Rightarrow> json option" where
  "field (JObj kvs) k = (case map_of kvs k of Some JUndefined \<Rightarrow> None | r \<Rightarrow> r)"
| "field _ k = None"

text \<open>Optional chaining \<open>o?.k\<close> on a value that may be \<open>undefined\<close>.\<close>

fun opt_field :: "json option \<Rightarrow> string \<Rightarrow> json option" where
  "opt_field None k = None"
| "opt_field (Some v) k = field v k"

text \<open>JavaScript truthiness of a value that may be \<open>undefined\<close>.\<close>

fun truthy :: "json option \<Rightarrow> bool" where
  "truthy None = False"
| "truthy (Some JNull) = False"
| "truthy (Some JUndefined) = False"
| "truthy (Some (JDate t)) = True"
| "truthy (Some (JBool b)) = b"
| "truthy (Some (JNum x)) = (x \<noteq> 0)"
| "truthy (Some (JStr s)) = (s \<noteq> [])"
| "truthy (Some (JArr xs)) = True"
| "truthy (Some (JObj kvs)) = True"

datatype severity = Low | Medium | High | Critical

fun severity_name :: "severity \<Rightarrow> string" where
  "severity_name Low = ''low''"
| "severity_name Medium = ''medium''"
| "severity_name High = ''high''"
| "severity_name Critical = ''critical''"

datatype error = Error string

text \<open>
  A regular expression literal is kept as its source text. In these texts the backslash
  is written \<open>%\<close> and \<open>js\<close> puts it back (no pattern of the source holds a percent
  sign); flags are left out. Matching itself is the engine's work: \<open>rx_exec\<close> gives the
  first match of a pattern in a text (\<open>matches[0]\<close>), or \<open>None\<close>.
\<close>

type_synonym regex = string

definition bs :: char where
  "bs = CHR 0x5C"

definition js :: "string \<Rightarrow> regex" where
  "js s = map (\<lambda>c. if c = CHR ''%'' then bs else c) s"

text \<open>\<open>String.prototype.includes\<close>, \<open>indexOf\<close> and \<open>substring\<close>.\<close>

fun str_includes :: "string \<Rightarrow> string \<Rightarrow> bool" where
  "str_includes [] sub = (sub = [])"
| "str_includes (x # xs) sub = (prefix sub (x # xs) \<or> str_includes xs sub)"

fun index_from :: "string \<Rightarrow> string \<Rightarrow> nat \<Rightarrow> int" where
  "index_from [] sub i = (if sub = [] then int i else - 1)"
| "index_from (x # xs) sub i =
     (if prefix sub (x # xs) then int i else index_from xs sub (Suc i))"

definition indexOf :: "string \<Rightarrow> string \<Rightarrow> int" where
  "indexOf s sub = index_from s sub 0"

definition substring :: "string \<Rightarrow> int \<Rightarrow> int \<Rightarrow> string" where
  "substring s a b =
     (let n = int (length s);
          a' = max 0 (min a n);
          b' = max 0 (min b n);
          lo = min a' b';
          hi = max a' b'
      in take (nat (hi - lo)) (drop (nat lo) s))"

text \<open>
  What the code takes from its runtime and its libraries, one field per service:
  the regular expression engine, \<open>JSON.stringify\<close> and \<open>JSON.parse\<close>, the
  conversion of a value to a string and to a number, \<open>parseInt\<close> (\<open>None\<close> is \<open>NaN\<close>),
  \<open>Date.prototype.toISOString\<close>, the SHA-256 digest in hex, the cipher and decipher of
  the \<open>crypto\<close> module (\<open>None\<close> where the call throws; \<open>createCipher\<close> yields the map
  from a text to its hex ciphertext), the \<open>validator\<close> checks, the GeoIP lookup, the
  user-agent parser and the \<open>NODE_ID\<close> variable.
\<close>

record env =
  rx_exec :: "regex \<Rightarrow> string \<Rightarrow> string option"
  stringify :: "json \<Rightarrow> string"
  parse :: "string \<Rightarrow> json option"
  to_text :: "json \<Rightarrow> string"
  to_number :: "json \<Rightarrow> real option"
  parseInt :: "string \<Rightarrow> int option"
  toISOString :: "nat \<Rightarrow> string"
  sha256 :: "string \<Rightarrow> string"
  createCipher :: "string \<Rightarrow> (string \<Rightarrow> string) option"
  createDecipher :: "string \<Rightarrow> (string \<Rightarrow> string option) option"
  isIP :: "string \<Rightarrow> bool"
  isISO8601 :: "string \<Rightarrow> bool"
  geoip_lookup :: "string \<Rightarrow> json option"
  ua_parse :: "string \<Rightarrow> json"
  node_id :: "string option"

definition rx_test :: "env \<Rightarrow> regex \<Rightarrow> string \<Rightarrow> bool" where
  "rx_test E p s = (rx_exec E p s \<noteq> None)"


section \<open>ComplianceChecker\<close>

text \<open>
  The table \<open>constitutionalPrinciples\<close>, in the order of \<open>Object.entries\<close>. The
  \<open>description\<close> of a principle is a fixed label that is only copied into a violation
  and is left out.
\<close>

record principle_config =
  weight :: real
  patterns :: "regex list"

definition constitutionalPrinciples :: "(string \<times> principle_config) list" where
  "constitutionalPrinciples =
    [(''human_dignity'', \<lparr>weight = 1.0, patterns =
        [js ''%b(dehumaniz|degrading|humiliat|objectif)'',
         js ''%b(treat.*like.*object|reduce.*to.*tool)'',
         js ''%b(disposable|worthless|subhuman)'']\<rparr>),
     (''individual_freedom'', \<lparr>weight = 0.9, patterns =
        [js ''%b(coerce|force|manipulat|deceive)'',
         js ''%b(restrict.*freedom|control.*thought)'',
         js ''%b(brainwash|indoctrinat)'']\<rparr>),
     (''equality_fairness'', \<lparr>weight = 0.95, patterns =
        [js ''%b(discriminat|bias|prejudice|unfair)'',
         js ''%b(racist|sexist|ageist|homophobic)'',
         js ''%b(superior.*inferior|better.*worse.*race)'']\<rparr>),
     (''justice_rule_of_law'', \<lparr>weight = 0.9, patterns =
        [js ''%b(illegal|unlawful|criminal|illicit)'',
         js ''%b(violate.*law|break.*regulation)'',
         js ''%b(corruption|bribery|fraud)'']\<rparr>),
     (''democratic_participation'', \<lparr>weight = 0.8, patterns =
        [js ''%b(suppress.*vote|election.*fraud)'',
         js ''%b(authoritari|totalitari|dictator)'',
         js ''%b(silence.*opposition|censor.*dissent)'']\<rparr>),
     (''accountability_transparency'', \<lparr>weight = 0.95, patterns =
        [js ''%b(hide.*truth|conceal.*fact|cover.*up)'',
         js ''%b(deception|mislead|false.*information)'',
         js ''%b(secret.*agenda|hidden.*motive)'']\<rparr>),
     (''beneficence_non_maleficence'', \<lparr>weight = 1.0, patterns =
        [js ''%b(harm|hurt|damage|destroy|kill)'',
         js ''%b(violence|attack|assault|abuse)'',
         js ''%b(poison|weapon|explosive|dangerous)'']\<rparr>),
     (''privacy_protection'', \<lparr>weight = 0.95, patterns =
        [js ''%b(steal.*data|breach.*privacy|expose.*personal)'',
         js ''%b(surveillance|spy|monitor.*private)'',
         js ''%b(identity.*theft|personal.*information.*leak)'']\<rparr>),
     (''truthfulness_honesty'', \<lparr>weight = 0.9, patterns =
        [js ''%b(lie|false|fake|misinformation)'',
         js ''%b(propaganda|manipulation|deception)'',
         js ''%b(conspiracy.*theory|alternative.*fact)'']\<rparr>),
     (''sustainability'', \<lparr>weight = 0.8, patterns =
        [js ''%b(environmental.*destruction|pollution)'',
         js ''%b(waste.*resource|unsustainable)'',
         js ''%b(climate.*denial|ecological.*damage)'']\<rparr>)]"

text \<open>The object \<open>checkPrincipleViolation\<close> builds and returns.\<close>

record violation_check =
  violated :: bool
  v_severity :: severity
  v_confidence :: real
  matched_patterns :: "(regex \<times> string) list"
  v_context :: "string list"

definition no_violation :: violation_check where
  "no_violation = \<lparr>violated = False, v_severity = Low, v_confidence = 0.0,
     matched_patterns = [], v_context = []\<rparr>"

text \<open>The text around a match: fifty characters on each side, cut at the ends.\<close>

definition extract_context :: "string \<Rightarrow> string \<Rightarrow> string" where
  "extract_context content m =
     (let contextStart = max 0 (indexOf content m - 50);
          contextEnd = min (int (length content)) (indexOf content m + int (length m) + 50)
      in substring content contextStart contextEnd)"

text \<open>One turn of the loop over \<open>config.patterns\<close>.\<close>

definition pattern_step :: "env \<Rightarrow> string \<Rightarrow> violation_check \<Rightarrow> regex \<Rightarrow> violation_check" where
  "pattern_step E content v pattern =
     (case rx_exec E pattern content of
        None \<Rightarrow> v
      | Some m \<Rightarrow>
          (let c1 = v_confidence v + 0.3;
               c2 = (if str_includes pattern [bs, CHR ''b''] then c1 + 0.2 else c1);
               c3 = (if length m > 10 then c2 + 0.1 else c2)
           in v\<lparr>violated := True,
                 matched_patterns := matched_patterns v @ [(pattern, m)],
                 v_context := v_context v @ [extract_context content m],
                 v_confidence := c3\<rparr>))"

definition confidence_severity :: "real \<Rightarrow> severity" where
  "confidence_severity c =
     (if c > 0.8 then Critical
      else if c > 0.6 then High
      else if c > 0.4 then Medium
      else Low)"

text \<open>
  \<open>checkPrincipleViolation\<close>. Its \<open>catch\<close> answers a failure with the empty check; with
  a string for content and a total engine nothing in the body throws.
\<close>

definition checkPrincipleViolation ::
  "env \<Rightarrow> string \<Rightarrow> principle_config \<Rightarrow> string \<Rightarrow> violation_check" where
  "checkPrincipleViolation E principle config content =
     (let v1 = foldl (pattern_step E content) no_violation (patterns config);
          v2 = v1\<lparr>v_confidence := min 1.0 (v_confidence v1)\<rparr>;
          v3 = v2\<lparr>v_severity := confidence_severity (v_confidence v2)\<rparr>
      in if principle \<in> set [''human_dignity'', ''beneficence_non_maleficence'']
            \<and> violated v3
         then v3\<lparr>v_severity := Critical, v_confidence := max 0.8 (v_confidence v3)\<rparr>
         else v3)"

record violation =
  principle :: string
  viol_severity :: severity
  viol_confidence :: real
  viol_matched_patterns :: "(regex \<times> string) list"
  viol_context :: "string list"

record compliance_result =
  compliant :: bool
  violations :: "violation list"
  score :: real
  principles_checked :: "string list"
  cr_timestamp :: nat
  cr_metadata :: "(string \<times> json) list"

text \<open>One turn of the loop over the principles in \<open>checkCompliance\<close>.\<close>

definition principle_step ::
  "env \<Rightarrow> string \<Rightarrow> compliance_result \<Rightarrow> string \<times> principle_config \<Rightarrow> compliance_result" where
  "principle_step E content result pc =
     (let violationCheck = checkPrincipleViolation E (fst pc) (snd pc) content
      in if violated violationCheck
         then result\<lparr>compliant := False,
               violations := violations result @
                 [\<lparr>principle = fst pc,
                   viol_severity = v_severity violationCheck,
                   viol_confidence = v_confidence violationCheck,
                   viol_matched_patterns = matched_patterns violationCheck,
                   viol_context = v_context violationCheck\<rparr>],
               score := score result - weight (snd pc) * v_confidence violationCheck\<rparr>
         else result)"

text \<open>The counters of the checker; \<open>compliance_score\<close> is a moving average.\<close>

record cc_stats =
  checks_performed :: nat
  violations_detected :: nat
  compliance_score :: real

definition updateComplianceScore :: "cc_stats \<Rightarrow> real \<Rightarrow> cc_stats" where
  "updateComplianceScore st newScore =
     st\<lparr>compliance_score := 0.1 * newScore + (1 - 0.1) * compliance_score st\<rparr>"

text \<open>
  \<open>checkCompliance\<close> on the content string (the argument itself when it is a string,
  its JSON text otherwise), at clock reading \<open>now\<close>. For a result with violations the
  source also calls \<open>recordViolation\<close>, which writes two cache keys, swallows its own
  errors and leaves the result as it is; those writes are not part of the model.
\<close>

definition checkCompliance ::
  "env \<Rightarrow> nat \<Rightarrow> cc_stats \<Rightarrow> string \<Rightarrow> compliance_result \<times> cc_stats" where
  "checkCompliance E now st content =
     (let st1 = st\<lparr>checks_performed := checks_performed st + 1\<rparr>;
          r0 = \<lparr>compliant = True, violations = [], score = 1.0,
                principles_checked = map fst constitutionalPrinciples,
                cr_timestamp = now, cr_metadata = []\<rparr>;
          r1 = foldl (principle_step E content) r0 constitutionalPrinciples;
          r2 = r1\<lparr>score := max 0 (min 1 (score r1))\<rparr>;
          st2 = (if \<not> compliant r2
                 then st1\<lparr>violations_detected := violations_detected st1 + 1\<rparr>
                 else st1)
      in (r2, updateComplianceScore st2 (score r2)))"

text \<open>No pattern of any principle matches the content.\<close>

definition no_principle_pattern_matches :: "env \<Rightarrow> string \<Rightarrow> bool" where
  "no_principle_pattern_matches E content =
     (\<forall>pc \<in> set constitutionalPrinciples. \<forall>p \<in> set (patterns (snd pc)).
        rx_exec E p content = None)"


section \<open>Properties of the ComplianceChecker\<close>

lemma pattern_step_violated:
  "violated (pattern_step E content v p) = (violated v \<or> rx_exec E p content \<noteq> None)"
  by (simp add: pattern_step_def Let_def split: option.splits)

lemma foldl_pattern_step_violated:
  "violated (foldl (pattern_step E content) v ps) =
     (violated v \<or> (\<exists>p \<in> set ps. rx_exec E p content \<noteq> None))"
  by (induction ps arbitrary: v) (auto simp: pattern_step_violated)

lemma checkPrincipleViolation_violated:
  "violated (checkPrincipleViolation E name config content) =
     (\<exists>p \<in> set (patterns config). rx_exec E p content \<noteq> None)"
  by (simp add: checkPrincipleViolation_def Let_def foldl_pattern_step_violated
      no_violation_def)

lemma principle_step_compliant_iff:
  "(compliant r = (violations r = [])) \<Longrightarrow>
   compliant (principle_step E content r pc) = (violations (principle_step E content r pc) = [])"
  by (simp add: principle_step_def Let_def)

lemma foldl_principle_step_compliant_iff:
  "(compliant r = (violations r = [])) \<Longrightarrow>
   compliant (foldl (principle_step E content) r pcs) =
     (violations (foldl (principle_step E content) r pcs) = [])"
proof (induction pcs arbitrary: r)
  case Nil
  then show ?case by simp
next
  case (Cons pc pcs)
  have "compliant (principle_step E content r pc) =
        (violations (principle_step E content r pc) = [])"
    using Cons.prems by (rule principle_step_compliant_iff)
  then show ?case using Cons.IH by simp
qed

lemma foldl_principle_step_clean:
  "\<forall>pc \<in> set pcs. \<forall>p \<in> set (patterns (snd pc)). rx_exec E p content = None \<Longrightarrow>
   foldl (principle_step E content) r pcs = r"
proof (induction pcs arbitrary: r)
  case Nil
  then show ?case by simp
next
  case (Cons pc pcs)
  have "\<not> violated (checkPrincipleViolation E (fst pc) (snd pc) content)"
    using Cons.prems by (simp add: checkPrincipleViolation_violated)
  then have "principle_step E content r pc = r"
    by (simp add: principle_step_def Let_def)
  then show ?case using Cons by simp
qed

text \<open>
  C9. When no detection pattern of any principle matches the content, \<open>checkCompliance\<close>
  returns \<open>compliant = true\<close>, \<open>score = 1.0\<close> and no violations; and for every content
  the returned \<open>compliant\<close> flag is true exactly when the list of violations is empty.
\<close>

theorem checkCompliance_clean_and_compliant_iff:
  "(no_principle_pattern_matches E content \<longrightarrow>
      compliant (fst (checkCompliance E now st content))
      \<and> score (fst (checkCompliance E now st content)) = 1.0
      \<and> violations (fst (checkCompliance E now st content)) = [])
   \<and> (compliant (fst (checkCompliance E now st content)) =
        (violations (fst (checkCompliance E now st content)) = []))"
proof
  show "no_principle_pattern_matches E content \<longrightarrow>
      compliant (fst (checkCompliance E now st content))
      \<and> score (fst (checkCompliance E now st content)) = 1.0
      \<and> violations (fst (checkCompliance E now st content)) = []"
  proof
    assume "no_principle_pattern_matches E content"
    then have "\<And>r. foldl (principle_step E content) r constitutionalPrinciples = r"
      unfolding no_principle_pattern_matches_def by (rule foldl_principle_step_clean)
    then show "compliant (fst (checkCompliance E now st content))
      \<and> score (fst (checkCompliance E now st content)) = 1.0
      \<and> violations (fst (checkCompliance E now st content)) = []"
      by (simp add: checkCompliance_def Let_def)
  qed
next
  show "compliant (fst (checkCompliance E now st content)) =
        (violations (fst (checkCompliance E now st content)) = [])"
    using foldl_principle_step_compliant_iff
      [of "\<lparr>compliant = True, violations = [], score = 1.0,
            principles_checked = map fst constitutionalPrinciples,
            cr_timestamp = now, cr_metadata = []\<rparr>" E content constitutionalPrinciples]
    by (simp add: checkCompliance_def Let_def)
qed


text \<open>
  A small runtime for running the model on concrete inputs. The regular expression
  engine is given. \<open>sample_stringify\<close> prints a value as \<open>JSON.stringify\<close> does: a key
  that holds \<open>undefined\<close> is left out of an object, \<open>undefined\<close> in an array is printed
  as \<open>null\<close>, a \<open>Date\<close> as its ISO text between quotes; strings are printed between
  quotes without escapes and every number as \<open>0\<close> (the sample payloads hold no number
  and no character that needs an escape). \<open>sample_parse\<close> reads back the texts of the
  plain JSON values listed in \<open>sample_values\<close>. The cipher puts the key in front of a
  text, and no GeoIP or user-agent data is known.
\<close>

definition sample_iso :: "nat \<Rightarrow> string" where
  "sample_iso t =
     (if t = 1714564800000 then ''2024-05-01T12:00:00.000Z''
      else if t = 1714618800000 then ''2024-05-02T03:00:00.000Z''
      else ''1970-01-01T00:00:00.000Z'')"

fun join_comma :: "string list \<Rightarrow> string" where
  "join_comma [] = []"
| "join_comma [x] = x"
| "join_comma (x # y # ys) = x @ '','' @ join_comma (y # ys)"

definition quoted :: "string \<Rightarrow> string" where
  "quoted t = [CHR 0x22] @ t @ [CHR 0x22]"

fun sample_stringify :: "json \<Rightarrow> string" where
  "sample_stringify JNull = ''null''"
| "sample_stringify JUndefined = ''null''"
| "sample_stringify (JBool b) = (if b then ''true'' else ''false'')"
| "sample_stringify (JNum x) = ''0''"
| "sample_stringify (JStr t) = quoted t"
| "sample_stringify (JDate t) = quoted (sample_iso t)"
| "sample_stringify (JArr xs) = ''['' @ join_comma (map sample_stringify xs) @ '']''"
| "sample_stringify (JObj kvs) =
     ''{'' @ join_comma (concat (map (\<lambda>kv. if snd kv = JUndefined then []
               else [quoted (fst kv) @ '':'' @ sample_stringify (snd kv)]) kvs))
       @ ''}''"

definition sample_values :: "json list" where
  "sample_values =
     [JNull, JStr ''ping'',
      JObj [(''timestamp'', JStr ''2024-05-01T12:00:00.000Z'')]]"

definition sample_parse :: "string \<Rightarrow> json option" where
  "sample_parse t = find (\<lambda>v. sample_stringify v = t) sample_values"

definition sample_decipher :: "string \<Rightarrow> string \<Rightarrow> string option" where
  "sample_decipher k c =
     (if take (length k) c = k then Some (drop (length k) c) else None)"

definition sample_env :: "(regex \<Rightarrow> string \<Rightarrow> string option) \<Rightarrow> env" where
  "sample_env rx =
     \<lparr>rx_exec = rx,
      stringify = sample_stringify,
      parse = sample_parse,
      to_text = (\<lambda>v. []),
      to_number = (\<lambda>v. None),
      parseInt = (\<lambda>s. None),
      toISOString = sample_iso,
      sha256 = rev,
      createCipher = (\<lambda>k. Some (\<lambda>s. k @ s)),
      createDecipher = (\<lambda>k. Some (sample_decipher k)),
      isIP = (\<lambda>s. s \<noteq> []),
      isISO8601 = (\<lambda>s. s \<noteq> []),
      geoip_lookup = (\<lambda>ip. None),
      ua_parse = (\<lambda>ua. JObj []),
      node_id = None\<rparr>"

text \<open>An engine for texts on which no pattern of the source matches.\<close>

definition no_match :: "regex \<Rightarrow> string \<Rightarrow> string option" where
  "no_match p s = None"

theorem checkCompliance_clean_witness:
  "no_principle_pattern_matches (sample_env no_match) ''hello''
   \<and> compliant (fst (checkCompliance (sample_env no_match) 0
        \<lparr>checks_performed = 0, violations_detected = 0, compliance_score = 0\<rparr> ''hello''))
   \<and> score (fst (checkCompliance (sample_env no_match) 0
        \<lparr>checks_performed = 0, violations_detected = 0, compliance_score = 0\<rparr> ''hello'')) = 1
   \<and> violations (fst (checkCompliance (sample_env no_match) 0
        \<lparr>checks_performed = 0, violations_detected = 0, compliance_score = 0\<rparr> ''hello'')) = []"
proof -
  have clean: "no_principle_pattern_matches (sample_env no_match) ''hello''"
    by (simp add: no_principle_pattern_matches_def sample_env_def no_match_def)
  show ?thesis
    using clean checkCompliance_clean_and_compliant_iff
      [of "sample_env no_match" "''hello''" 0
        "\<lparr>checks_performed = 0, violations_detected = 0, compliance_score = 0\<rparr>"]
    by simp
qed


section \<open>ThreatDetector\<close>

text \<open>
  The table \<open>threatPatterns\<close>, in the order of \<open>Object.entries\<close>, and the severity
  \<open>analyzePatternThreat\<close> gives each category (\<open>severityMap[threatType] || 'medium'\<close>).
\<close>

definition threatPatterns :: "(string \<times> regex list) list" where
  "threatPatterns =
    [(''sql_injection'',
        [js ''(%bunion%b|%bselect%b|%binsert%b|%bdelete%b|%bdrop%b|%bcreate%b|%balter%b|%bexec%b)'',
         js ''(%bor%b|%band%b)%s*%d+%s*=%s*%d+'',
         js (''[%'' @ [CHR 0x27] @ ''%'' @ [CHR 0x22] @ ''];?%s*(union|select|insert|delete)'')]),
     (''xss_attack'',
        [js ''<script%b[^<]*(?:(?!<%/script>)<[^<]*)*<%/script>'',
         js ''javascript:'',
         js ''vbscript:'',
         js ''on%w+%s*='',
         js ''<iframe|<object|<embed'']),
     (''csrf_attempt'',
        [js ''%b(csrf|xsrf)%b.*token'',
         js ''authenticity_token'']),
     (''directory_traversal'',
        [js ''%.%.[%/%%]'',
         js ''%.%.[%/%%][%/%%]'',
         js ''%/etc%/passwd'',
         js ''%/windows%/system32'']),
     (''command_injection'',
        [js ''[;&|`$(){}[%]]'',
         js ''%b(cat|ls|dir|type|del|rm|mv|cp)%b'',
         js ''%b(wget|curl|nc|netcat)%b'']),
     (''constitutional_violation'',
        [js ''%b(illegal|harmful|dangerous|unethical|discriminatory)%b'',
         js ''%b(violent|threat|harm|kill|destroy)%b'',
         js ''%b(fraud|scam|phishing|malware)%b'',
         js ''%b(privacy.*violation|data.*breach)%b''])]"

definition severityMap :: "string \<Rightarrow> severity" where
  "severityMap threatType =
     (if threatType = ''sql_injection'' then Critical
      else if threatType = ''xss_attack'' then High
      else if threatType = ''command_injection'' then Critical
      else if threatType = ''constitutional_violation'' then High
      else if threatType = ''directory_traversal'' then High
      else if threatType = ''csrf_attempt'' then Medium
      else Medium)"

fun getSeverityLevel :: "severity \<Rightarrow> nat" where
  "getSeverityLevel Low = 1"
| "getSeverityLevel Medium = 2"
| "getSeverityLevel High = 3"
| "getSeverityLevel Critical = 4"

record analysis_result =
  isThreat :: bool
  threatTypes :: "string list"
  severity :: severity
  confidence :: real
  metadata :: "(string \<times> json) list"
  timestamp :: nat
  constitutional_compliant :: bool

text \<open>
  What the detector holds and reads besides the event: the blacklist, the cache (one map
  for each key prefix it uses, an entry of \<open>ip_requests\<close> with the time in milliseconds
  at which it expires), and its counters. While \<open>cache_up\<close> is false every cache
  command throws.
\<close>

record td_state =
  ipBlacklist :: "string set"
  cache_up :: bool
  ip_requests :: "string \<rightharpoonup> int \<times> nat"
  suspicious_score :: "string \<rightharpoonup> real"
  recent_requests :: "string \<rightharpoonup> nat list"
  threat_keys :: "nat list"
  threats_analyzed :: nat
  threats_detected :: nat

text \<open>
  The readings of the wall clock: \<open>Date.now()\<close> in milliseconds,
  \<open>new Date().getHours()\<close> and \<open>getMinutes()\<close>.
\<close>

record clock =
  now_ms :: nat
  local_hour :: nat
  local_minute :: nat

text \<open>
  \<open>eventData.source?.ip\<close> where it is truthy. Events reach the detector after
  \<open>validateSecurityEvent\<close>, which lets a truthy address through only when it is a string.
\<close>

definition source_ip :: "json \<Rightarrow> string option" where
  "source_ip eventData =
     (case opt_field (field eventData ''source'') ''ip'' of
        Some (JStr s) \<Rightarrow> (if s = [] then None else Some s)
      | _ \<Rightarrow> None)"

text \<open>\<open>JSON.stringify(eventData.data)\<close>: \<open>None\<close> is \<open>undefined\<close>, for an event without data.\<close>

definition data_string :: "env \<Rightarrow> json \<Rightarrow> string option" where
  "data_string E eventData = map_option (stringify E) (field eventData ''data'')"

text \<open>The text a regular expression tests when it is handed a value that may be undefined.\<close>

definition tested_text :: "string option \<Rightarrow> string" where
  "tested_text s = (case s of None \<Rightarrow> ''undefined'' | Some t \<Rightarrow> t)"

text \<open>A string as it is, any other value through the runtime's conversion.\<close>

definition text_of :: "env \<Rightarrow> json \<Rightarrow> string" where
  "text_of E v = (case v of JStr s \<Rightarrow> s | _ \<Rightarrow> to_text E v)"

text \<open>
  \<open>getIPRequestCount\<close>: reads the counter of the address, stores it incremented for
  another minute, and returns what it read; \<open>0\<close> when the cache fails.
\<close>

definition getIPRequestCount :: "clock \<Rightarrow> td_state \<Rightarrow> string \<Rightarrow> int \<times> td_state" where
  "getIPRequestCount c st ip =
     (if \<not> cache_up st then (0, st)
      else
        (let count = (case ip_requests st ip of
                        Some (n, expires) \<Rightarrow> (if now_ms c < expires then n else 0)
                      | None \<Rightarrow> 0)
         in (count, st\<lparr>ip_requests := (ip_requests st)(ip \<mapsto> (count + 1, now_ms c + 60000))\<rparr>)))"

definition getSuspiciousActivityScore :: "td_state \<Rightarrow> string \<Rightarrow> real" where
  "getSuspiciousActivityScore st ip =
     (if \<not> cache_up st then 0
      else (case suspicious_score st ip of Some x \<Rightarrow> x | None \<Rightarrow> 0))"

definition getRecentRequestsByIP :: "clock \<Rightarrow> td_state \<Rightarrow> string \<Rightarrow> nat \<Rightarrow> nat list" where
  "getRecentRequestsByIP c st ip seconds =
     (if \<not> cache_up st then []
      else
        (let requests = (case recent_requests st ip of Some ts \<Rightarrow> ts | None \<Rightarrow> [])
         in filter (\<lambda>t. int t > int (now_ms c) - int (seconds * 1000)) requests))"

text \<open>\<open>analyzeIPThreat\<close>.\<close>

definition analyzeIPThreat ::
  "clock \<Rightarrow> json \<Rightarrow> analysis_result \<times> td_state \<Rightarrow> analysis_result \<times> td_state" where
  "analyzeIPThreat c eventData rs =
     (case source_ip eventData of
        None \<Rightarrow> rs
      | Some ip \<Rightarrow>
          (let result = fst rs; st = snd rs;
               r1 = (if ip \<in> ipBlacklist st
                     then result\<lparr>isThreat := True,
                            threatTypes := threatTypes result @ [''blacklisted_ip''],
                            severity := High,
                            confidence := confidence result + 0.9\<rparr>
                     else result);
               cnt = getIPRequestCount c st ip;
               requestCount = fst cnt;
               st1 = snd cnt;
               r2 = (if requestCount > 100
                     then r1\<lparr>isThreat := True,
                            threatTypes := threatTypes r1 @ [''rate_limit_exceeded''],
                            severity := Medium,
                            confidence := confidence r1 + 0.7,
                            metadata := AList.update ''request_count''
                              (JNum (real_of_int requestCount)) (metadata r1)\<rparr>
                     else r1);
               r3 = (if local_hour c \<ge> 2 \<and> local_hour c \<le> 5
                        \<and> getSuspiciousActivityScore st1 ip > 0.5
                     then r2\<lparr>threatTypes := threatTypes r2 @ [''suspicious_timing''],
                            confidence := confidence r2 + 0.3\<rparr>
                     else r2)
           in (r3, st1)))"

text \<open>
  \<open>analyzePatternThreat\<close>: the two nested loops run over the pairs of a category and
  one of its patterns. With an undefined request string a pattern tests the text
  \<open>undefined\<close>, and where it matches, \<open>requestString.match\<close> throws after the first
  updates of the result; the \<open>catch\<close> of the analyzer ends the loop there.
\<close>

definition pattern_pairs :: "(string \<times> regex) list" where
  "pattern_pairs = concat (map (\<lambda>tp. map (Pair (fst tp)) (snd tp)) threatPatterns)"

fun pattern_loop ::
  "env \<Rightarrow> string option \<Rightarrow> (string \<times> regex) list \<Rightarrow> analysis_result \<Rightarrow> analysis_result" where
  "pattern_loop E requestString [] result = result"
| "pattern_loop E requestString ((threatType, pattern) # rest) result =
     (if rx_test E pattern (tested_text requestString)
      then
        (let currentSeverity = severityMap threatType;
             r1 = result\<lparr>isThreat := True,
                    threatTypes := threatTypes result @ [threatType],
                    severity := (if getSeverityLevel currentSeverity > getSeverityLevel (severity result)
                                 then currentSeverity else severity result),
                    confidence := confidence result + 0.8\<rparr>
         in case requestString of
              None \<Rightarrow> r1
            | Some s \<Rightarrow>
                pattern_loop E requestString rest
                  (r1\<lparr>metadata := AList.update threatType
                         (JObj ((''pattern_matched'', JStr pattern) #
                            (case rx_exec E pattern s of
                               None \<Rightarrow> []
                             | Some m \<Rightarrow> [(''matched_content'', JStr m)])))
                         (metadata r1),
                       constitutional_compliant :=
                         (if threatType = ''constitutional_violation'' then False
                          else constitutional_compliant r1)\<rparr>))
      else pattern_loop E requestString rest result)"

definition analyzePatternThreat :: "env \<Rightarrow> json \<Rightarrow> analysis_result \<Rightarrow> analysis_result" where
  "analyzePatternThreat E eventData result =
     pattern_loop E (data_string E eventData) pattern_pairs result"

definition isAdminEndpoint :: "env \<Rightarrow> string \<Rightarrow> bool" where
  "isAdminEndpoint E endpoint = rx_test E (js ''%/(admin|config|debug|internal)'') endpoint"

text \<open>
  \<open>analyzeAnomalousActivity\<close>. Without an address it returns at once; with an undefined
  request string the size of the payload cannot be read and the \<open>catch\<close> ends the analysis
  after the endpoint check.
\<close>

definition analyzeAnomalousActivity ::
  "env \<Rightarrow> clock \<Rightarrow> td_state \<Rightarrow> json \<Rightarrow> analysis_result \<Rightarrow> analysis_result" where
  "analyzeAnomalousActivity E c st eventData result =
     (case source_ip eventData of
        None \<Rightarrow> result
      | Some ip \<Rightarrow>
          (let recentRequests = getRecentRequestsByIP c st ip 300;
               r1 = (if length recentRequests > 50
                     then result\<lparr>isThreat := True,
                            threatTypes := threatTypes result @ [''ddos_attempt''],
                            severity := High,
                            confidence := confidence result + 0.8,
                            metadata := AList.update ''recent_requests''
                              (JNum (real (length recentRequests))) (metadata result)\<rparr>
                     else result);
               endpoint = opt_field (field eventData ''data'') ''endpoint'';
               r2 = (if truthy endpoint \<and> isAdminEndpoint E (text_of E (the endpoint))
                     then r1\<lparr>threatTypes := threatTypes r1 @ [''admin_access_attempt''],
                            confidence := confidence r1 + 0.5\<rparr>
                     else r1)
           in case data_string E eventData of
                None \<Rightarrow> r2
              | Some s \<Rightarrow>
                  (if length s > 100000
                   then r2\<lparr>threatTypes := threatTypes r2 @ [''oversized_payload''],
                          confidence := confidence r2 + 0.4,
                          metadata := AList.update ''payload_size''
                            (JNum (real (length s))) (metadata r2)\<rparr>
                   else r2)))"

definition isPotentialVPN :: "env \<Rightarrow> json \<Rightarrow> bool" where
  "isPotentialVPN E geo =
     (truthy (field geo ''org'')
      \<and> rx_test E ''vpn|proxy|hosting'' (text_of E (the (field geo ''org''))))"

text \<open>
  \<open>analyzeGeolocation\<close>. A lookup that throws is caught by the analyzer and leaves the
  result as a lookup without an answer does.
\<close>

definition analyzeGeolocation :: "env \<Rightarrow> json \<Rightarrow> analysis_result \<Rightarrow> analysis_result" where
  "analyzeGeolocation E eventData result =
     (case source_ip eventData of
        None \<Rightarrow> result
      | Some ip \<Rightarrow>
          (case geoip_lookup E ip of
             None \<Rightarrow> result
           | Some geo \<Rightarrow>
               (if \<not> truthy (Some geo) then result
                else
                  (let r1 = result\<lparr>metadata := AList.update ''geolocation'' geo (metadata result)\<rparr>;
                       r2 = (if field geo ''country'' \<in> Some ` JStr ` {''CN'', ''RU'', ''KP'', ''IR''}
                             then r1\<lparr>threatTypes := threatTypes r1 @ [''high_risk_country''],
                                    confidence := confidence r1 + 0.3\<rparr>
                             else r1)
                   in if isPotentialVPN E geo
                      then r2\<lparr>threatTypes := threatTypes r2 @ [''vpn_tor_usage''],
                             confidence := confidence r2 + 0.2\<rparr>
                      else r2))))"


text \<open>
  The helpers of \<open>analyzeUserAgent\<close> read the parser's result; \<open>None\<close> stands for the
  \<open>TypeError\<close> of a property read on \<open>undefined\<close> or \<open>null\<close>, or of \<open>split\<close> on a
  version that is not a string.
\<close>

definition outdatedVersions :: "json option \<Rightarrow> int option" where
  "outdatedVersions name =
     (if name = Some (JStr ''Chrome'') then Some 90
      else if name = Some (JStr ''Firefox'') then Some 80
      else if name = Some (JStr ''Safari'') then Some 13
      else if name = Some (JStr ''Edge'') then Some 90
      else None)"

definition isOutdatedBrowser :: "env \<Rightarrow> json \<Rightarrow> bool option" where
  "isOutdatedBrowser E ua =
     (case field ua ''browser'' of
        None \<Rightarrow> None
      | Some JNull \<Rightarrow> None
      | Some browser \<Rightarrow>
          (if \<not> truthy (field browser ''version'') then Some False
           else
             (case field browser ''version'' of
                Some (JStr v) \<Rightarrow>
                  (case (outdatedVersions (field browser ''name''),
                         parseInt E (takeWhile (\<lambda>ch. ch \<noteq> CHR ''.'') v)) of
                     (Some limit, Some version) \<Rightarrow> Some (version < limit)
                   | _ \<Rightarrow> Some False)
              | _ \<Rightarrow> None)))"

definition isSuspiciousBot :: "env \<Rightarrow> string \<Rightarrow> bool" where
  "isSuspiciousBot E userAgent =
     list_ex (\<lambda>pattern. rx_test E pattern userAgent)
       [''bot|crawler|spider|scraper'', ''curl|wget|python|java|php'', ''automated|script|tool'']"

definition isUserAgentSpoofed :: "json \<Rightarrow> bool option" where
  "isUserAgentSpoofed ua =
     (case field ua ''os'' of
        None \<Rightarrow> None
      | Some JNull \<Rightarrow> None
      | Some os \<Rightarrow>
          Some (field os ''name'' = Some (JStr ''Windows'')
                \<and> opt_field (field ua ''browser'') ''name'' = Some (JStr ''Safari'')))"

text \<open>
  \<open>analyzeUserAgent\<close>; where a helper throws, the \<open>catch\<close> of the analyzer keeps the
  result as it stands at that point.
\<close>

definition analyzeUserAgent :: "env \<Rightarrow> json \<Rightarrow> analysis_result \<Rightarrow> analysis_result" where
  "analyzeUserAgent E eventData result =
     (let userAgent = opt_field (field eventData ''source'') ''userAgent''
      in if \<not> truthy userAgent then result
         else
           (let ua_text = text_of E (the userAgent);
                parsed = ua_parse E ua_text;
                r1 = result\<lparr>metadata := AList.update ''user_agent'' parsed (metadata result)\<rparr>
            in case isOutdatedBrowser E parsed of
                 None \<Rightarrow> r1
               | Some outdated \<Rightarrow>
                   (let r2 = (if outdated
                              then r1\<lparr>threatTypes := threatTypes r1 @ [''outdated_browser''],
                                     confidence := confidence r1 + 0.2\<rparr>
                              else r1);
                        r3 = (if isSuspiciousBot E ua_text
                              then r2\<lparr>threatTypes := threatTypes r2 @ [''suspicious_bot''],
                                     confidence := confidence r2 + 0.6\<rparr>
                              else r2)
                    in case isUserAgentSpoofed parsed of
                         None \<Rightarrow> r3
                       | Some spoofed \<Rightarrow>
                           (if spoofed
                            then r3\<lparr>threatTypes := threatTypes r3 @ [''user_agent_spoofing''],
                                   confidence := confidence r3 + 0.5\<rparr>
                            else r3))))"

text \<open>\<open>analyzeConstitutionalCompliance\<close>: four tests on the request string.\<close>

definition constitutional_checks :: "(regex \<times> string) list" where
  "constitutional_checks =
     [(js ''%b(dehumaniz|degrading|humiliat)'', ''human_dignity_threat''),
      (js ''%b(discriminat|racist|sexist|homophobic)%b'', ''discriminatory_content''),
      (js ''%b(personal.*data|private.*info|breach.*privacy)%b'', ''privacy_violation''),
      (js ''%b(hack|exploit|illegal.*activity|malicious)%b'', ''harmful_activity_promotion'')]"

definition analyzeConstitutionalCompliance ::
  "env \<Rightarrow> json \<Rightarrow> analysis_result \<Rightarrow> analysis_result" where
  "analyzeConstitutionalCompliance E eventData result =
     (let content = tested_text (data_string E eventData);
          found = map snd (filter (\<lambda>chk. rx_test E (fst chk) content) constitutional_checks)
      in if length found > 0
         then result\<lparr>constitutional_compliant := False,
                isThreat := True,
                threatTypes := threatTypes result @ [''constitutional_violation''],
                severity := High,
                confidence := confidence result + 0.9,
                metadata := AList.update ''constitutional_violations''
                  (JArr (map JStr found)) (metadata result)\<rparr>
         else result)"

text \<open>\<open>calculateThreatScore\<close>.\<close>

definition calculateThreatScore :: "analysis_result \<Rightarrow> analysis_result" where
  "calculateThreatScore result =
     (let r1 = result\<lparr>confidence := min (confidence result) 1.0\<rparr>;
          r2 = (if severity r1 = Critical \<and> confidence r1 \<ge> 0.9 then r1\<lparr>isThreat := True\<rparr>
                else if severity r1 = High \<and> confidence r1 \<ge> 0.7 then r1\<lparr>isThreat := True\<rparr>
                else if severity r1 = Medium \<and> confidence r1 \<ge> 0.5 then r1\<lparr>isThreat := True\<rparr>
                else if confidence r1 \<ge> 0.3 \<and> length (threatTypes r1) > 2
                then r1\<lparr>isThreat := True\<rparr>
                else r1)
      in if \<not> constitutional_compliant r2 then r2\<lparr>isThreat := True\<rparr> else r2)"

text \<open>
  \<open>analyzeThreat\<close>: the six analyzers in turn on one result object, then the score.
  A detected threat is counted and cached under a key made of the clock reading
  (\<open>cacheThreatData\<close>, which swallows a cache failure).
\<close>

definition initial_result :: "clock \<Rightarrow> analysis_result" where
  "initial_result c =
     \<lparr>isThreat = False, threatTypes = [], severity = Low, confidence = 0.0,
      metadata = [], timestamp = now_ms c, constitutional_compliant = True\<rparr>"

definition analyzeThreat ::
  "env \<Rightarrow> clock \<Rightarrow> td_state \<Rightarrow> json \<Rightarrow> analysis_result \<times> td_state" where
  "analyzeThreat E c st eventData =
     (let st0 = st\<lparr>threats_analyzed := threats_analyzed st + 1\<rparr>;
          ip_step = analyzeIPThreat c eventData (initial_result c, st0);
          r1 = fst ip_step;
          st1 = snd ip_step;
          r2 = analyzePatternThreat E eventData r1;
          r3 = analyzeAnomalousActivity E c st1 eventData r2;
          r4 = analyzeGeolocation E eventData r3;
          r5 = analyzeUserAgent E eventData r4;
          r6 = analyzeConstitutionalCompliance E eventData r5;
          r7 = calculateThreatScore r6
      in if isThreat r7
         then (r7, st1\<lparr>threats_detected := threats_detected st1 + 1,
                      threat_keys := (if cache_up st1 then threat_keys st1 @ [now_ms c]
                                      else threat_keys st1)\<rparr>)
         else (r7, st1))"


text \<open>
  Two states of the detector with the same blacklist and the same cache contents; the
  counters and the keys of cached threats may differ.
\<close>
definition same_external_state :: "td_state \<Rightarrow> td_state \<Rightarrow> bool" where
  "same_external_state st st' =
     (ipBlacklist st = ipBlacklist st' \<and> cache_up st = cache_up st'
      \<and> ip_requests st = ip_requests st' \<and> suspicious_score st = suspicious_score st'
      \<and> recent_requests st = recent_requests st')"

text \<open>
  Sample data: an event from a blacklisted address whose payload is the string
  \<open>ping\<close>, on whose JSON text none of the patterns matches; a cache in which that address
  has made 101 requests within the last minute; an event from another address, and a
  cache holding a suspicion score for it.
\<close>

definition blacklisted_event :: json where
  "blacklisted_event =
     JObj [(''timestamp'', JStr ''2024-05-01T12:00:00.000Z''),
           (''type'', JStr ''http_request''),
           (''source'', JObj [(''ip'', JStr ''192.168.1.100'')]),
           (''data'', JStr ''ping'')]"

definition busy_state :: td_state where
  "busy_state =
     \<lparr>ipBlacklist = {''192.168.1.100'', ''10.0.0.1''}, cache_up = True,
      ip_requests = [''192.168.1.100'' \<mapsto> (101, 1714564830000)],
      suspicious_score = Map.empty, recent_requests = Map.empty,
      threat_keys = [], threats_analyzed = 0, threats_detected = 0\<rparr>"

definition noon :: clock where
  "noon = \<lparr>now_ms = 1714564800000, local_hour = 12, local_minute = 0\<rparr>"

definition night_event :: json where
  "night_event =
     JObj [(''timestamp'', JStr ''2024-05-01T01:00:00.000Z''),
           (''type'', JStr ''http_request''),
           (''source'', JObj [(''ip'', JStr ''203.0.113.7'')]),
           (''data'', JStr ''ping'')]"

definition suspicious_state :: td_state where
  "suspicious_state =
     \<lparr>ipBlacklist = {''192.168.1.100'', ''10.0.0.1''}, cache_up = True,
      ip_requests = Map.empty,
      suspicious_score = [''203.0.113.7'' \<mapsto> 0.9], recent_requests = Map.empty,
      threat_keys = [], threats_analyzed = 0, threats_detected = 0\<rparr>"

definition one_oclock :: clock where
  "one_oclock = \<lparr>now_ms = 1714525200000, local_hour = 1, local_minute = 0\<rparr>"

definition three_oclock :: clock where
  "three_oclock = \<lparr>now_ms = 1714532400000, local_hour = 3, local_minute = 0\<rparr>"


section \<open>Properties of the ThreatDetector\<close>

subsection \<open>Runs of the analyzers on texts without a match\<close>

lemma pattern_loop_no_match:
  "pattern_loop (sample_env no_match) rs ps r = r"
  by (induction ps arbitrary: r) (auto simp: rx_test_def sample_env_def no_match_def)

lemma analyzePatternThreat_no_match:
  "analyzePatternThreat (sample_env no_match) ev r = r"
  by (simp add: analyzePatternThreat_def pattern_loop_no_match)

lemma analyzeGeolocation_unknown:
  "analyzeGeolocation (sample_env rx) ev r = r"
  by (simp add: analyzeGeolocation_def sample_env_def split: option.splits)

lemma analyzeUserAgent_absent:
  "opt_field (field ev ''source'') ''userAgent'' = None \<Longrightarrow> analyzeUserAgent E ev r = r"
  by (simp add: analyzeUserAgent_def)

lemma analyzeConstitutionalCompliance_no_match:
  "analyzeConstitutionalCompliance (sample_env no_match) ev r = r"
  by (simp add: analyzeConstitutionalCompliance_def rx_test_def sample_env_def no_match_def)

lemma analyzeAnomalousActivity_quiet:
  assumes "recent_requests st = Map.empty"
    and "opt_field (field ev ''data'') ''endpoint'' = None"
    and "field ev ''data'' = Some (JStr ''ping'')"
  shows "analyzeAnomalousActivity (sample_env no_match) c st ev r = r"
  using assms
  by (simp add: analyzeAnomalousActivity_def getRecentRequestsByIP_def Let_def data_string_def
      sample_env_def quoted_def split: option.splits)

lemma blacklisted_event_fields:
  "source_ip blacklisted_event = Some ''192.168.1.100''"
  "opt_field (field blacklisted_event ''data'') ''endpoint'' = None"
  "field blacklisted_event ''data'' = Some (JStr ''ping'')"
  "opt_field (field blacklisted_event ''source'') ''userAgent'' = None"
  by (simp_all add: source_ip_def blacklisted_event_def)

lemma night_event_fields:
  "source_ip night_event = Some ''203.0.113.7''"
  "opt_field (field night_event ''data'') ''endpoint'' = None"
  "field night_event ''data'' = Some (JStr ''ping'')"
  "opt_field (field night_event ''source'') ''userAgent'' = None"
  by (simp_all add: source_ip_def night_event_def)

lemma analyzeThreat_blacklisted_run:
  "fst (analyzeThreat (sample_env no_match) noon busy_state blacklisted_event) =
     \<lparr>isThreat = True,
      threatTypes = [''blacklisted_ip'', ''rate_limit_exceeded''],
      severity = Medium,
      confidence = 1,
      metadata = [(''request_count'', JNum 101)],
      timestamp = 1714564800000,
      constitutional_compliant = True\<rparr>"
proof -
  have ip: "analyzeIPThreat noon blacklisted_event
        (initial_result noon, busy_state\<lparr>threats_analyzed := threats_analyzed busy_state + 1\<rparr>)
     = (\<lparr>isThreat = True, threatTypes = [''blacklisted_ip'', ''rate_limit_exceeded''],
         severity = Medium, confidence = 1.6, metadata = [(''request_count'', JNum 101)],
         timestamp = 1714564800000, constitutional_compliant = True\<rparr>,
        busy_state\<lparr>threats_analyzed := 1,
          ip_requests := [''192.168.1.100'' \<mapsto> (102, 1714564860000)]\<rparr>)"
    by (simp add: analyzeIPThreat_def blacklisted_event_fields Let_def getIPRequestCount_def
        busy_state_def initial_result_def noon_def)
  show ?thesis
    unfolding analyzeThreat_def Let_def ip fst_conv snd_conv
    by (simp add: analyzeGeolocation_unknown analyzeConstitutionalCompliance_no_match
        analyzeAnomalousActivity_quiet analyzePatternThreat_no_match analyzeUserAgent_absent
        blacklisted_event_fields busy_state_def calculateThreatScore_def)
qed

text \<open>
  C4. The claim: the severity of the result is the maximum of the severities of the
  matched categories, so an event from a blacklisted address that also exceeds the rate
  limit has severity at least \<open>high\<close>. \<open>analyzePatternThreat\<close> keeps the maximum, but
  \<open>analyzeIPThreat\<close> assigns: for the blacklisted address with 101 requests in the last
  minute it sets \<open>high\<close> and then overwrites it with \<open>medium\<close>, and no later analyzer
  raises it.
\<close>

theorem analyzeThreat_blacklisted_over_rate_limit:
  "fst (analyzeThreat (sample_env no_match) noon busy_state blacklisted_event) =
     \<lparr>isThreat = True,
      threatTypes = [''blacklisted_ip'', ''rate_limit_exceeded''],
      severity = Medium,
      confidence = 1,
      metadata = [(''request_count'', JNum 101)],
      timestamp = 1714564800000,
      constitutional_compliant = True\<rparr>"
  by (rule analyzeThreat_blacklisted_run)

subsection \<open>What the scores depend on\<close>

lemma getIPRequestCount_same:
  "same_external_state st st' \<Longrightarrow>
   fst (getIPRequestCount c st ip) = fst (getIPRequestCount c st' ip)
   \<and> same_external_state (snd (getIPRequestCount c st ip)) (snd (getIPRequestCount c st' ip))"
  by (simp add: getIPRequestCount_def Let_def same_external_state_def)

lemma getSuspiciousActivityScore_same:
  "same_external_state st st' \<Longrightarrow>
   getSuspiciousActivityScore st ip = getSuspiciousActivityScore st' ip"
  by (simp add: getSuspiciousActivityScore_def same_external_state_def)

lemma getRecentRequestsByIP_same:
  "same_external_state st st' \<Longrightarrow>
   getRecentRequestsByIP c st ip n = getRecentRequestsByIP c st' ip n"
  by (simp add: getRecentRequestsByIP_def same_external_state_def)

lemma analyzeIPThreat_same:
  assumes "same_external_state st st'"
  shows "fst (analyzeIPThreat c ev (r, st)) = fst (analyzeIPThreat c ev (r, st'))
   \<and> same_external_state (snd (analyzeIPThreat c ev (r, st))) (snd (analyzeIPThreat c ev (r, st')))"
proof (cases "source_ip ev")
  case None
  then show ?thesis using assms by (simp add: analyzeIPThreat_def)
next
  case (Some ip)
  have bl: "(ip \<in> ipBlacklist st) = (ip \<in> ipBlacklist st')"
    using assms by (simp add: same_external_state_def)
  note cnt = getIPRequestCount_same [OF assms, of c ip]
  have sc: "getSuspiciousActivityScore (snd (getIPRequestCount c st ip)) ip =
            getSuspiciousActivityScore (snd (getIPRequestCount c st' ip)) ip"
    using cnt by (simp add: getSuspiciousActivityScore_same)
  show ?thesis
    using cnt by (simp add: analyzeIPThreat_def Some Let_def bl sc)
qed

lemma analyzeAnomalousActivity_same:
  "same_external_state st st' \<Longrightarrow>
   analyzeAnomalousActivity E c st ev r = analyzeAnomalousActivity E c st' ev r"
  by (simp add: analyzeAnomalousActivity_def getRecentRequestsByIP_same cong: option.case_cong)

lemma analyzeThreat_same:
  assumes "same_external_state st st'"
  shows "fst (analyzeThreat E c st ev) = fst (analyzeThreat E c st' ev)"
proof -
  have s0: "same_external_state (st\<lparr>threats_analyzed := threats_analyzed st + 1\<rparr>)
              (st'\<lparr>threats_analyzed := threats_analyzed st' + 1\<rparr>)"
    using assms by (simp add: same_external_state_def)
  note ip = analyzeIPThreat_same [OF s0, of c ev "initial_result c"]
  have an: "\<And>r. analyzeAnomalousActivity E c
       (snd (analyzeIPThreat c ev (initial_result c, st\<lparr>threats_analyzed := threats_analyzed st + 1\<rparr>))) ev r
     = analyzeAnomalousActivity E c
       (snd (analyzeIPThreat c ev (initial_result c, st'\<lparr>threats_analyzed := threats_analyzed st' + 1\<rparr>))) ev r"
    using ip by (simp add: analyzeAnomalousActivity_same)
  show ?thesis
    unfolding analyzeThreat_def Let_def
    using ip an by (simp del: One_nat_def add: if_distrib [of fst])
qed

lemma principle_step_timestamp:
  "principle_step E content (r\<lparr>cr_timestamp := t\<rparr>) pc = (principle_step E content r pc)\<lparr>cr_timestamp := t\<rparr>"
  by (simp add: principle_step_def Let_def)

lemma foldl_principle_step_timestamp:
  "foldl (principle_step E content) (r\<lparr>cr_timestamp := t\<rparr>) pcs =
   (foldl (principle_step E content) r pcs)\<lparr>cr_timestamp := t\<rparr>"
  by (induction pcs arbitrary: r) (simp_all add: principle_step_timestamp)

lemma checkCompliance_result:
  "fst (checkCompliance E now st content) = (fst (checkCompliance E now' st' content))\<lparr>cr_timestamp := now\<rparr>"
proof -
  have "\<lparr>compliant = True, violations = [], score = 1.0,
          principles_checked = map fst constitutionalPrinciples,
          cr_timestamp = now, cr_metadata = []\<rparr>
      = \<lparr>compliant = True, violations = [], score = 1.0,
          principles_checked = map fst constitutionalPrinciples,
          cr_timestamp = now', cr_metadata = []\<rparr>\<lparr>cr_timestamp := now\<rparr>" by simp
  then show ?thesis
    unfolding checkCompliance_def Let_def fst_conv
    by (simp only: foldl_principle_step_timestamp) simp
qed

text \<open>
  C8 as stated fails: with the blacklist, the counters of the cache and the cached
  suspicion score unchanged, the same event gets confidence \<open>0\<close> at one o'clock and
  \<open>0.3\<close> at three o'clock, since \<open>analyzeIPThreat\<close> reads the hour of the wall clock.
\<close>

theorem analyzeThreat_confidence_varies_with_hour:
  "confidence (fst (analyzeThreat (sample_env no_match) one_oclock suspicious_state night_event)) = 0
   \<and> confidence (fst (analyzeThreat (sample_env no_match) three_oclock suspicious_state night_event)) = 0.3"
proof -
  have ip1: "analyzeIPThreat one_oclock night_event
        (initial_result one_oclock,
         suspicious_state\<lparr>threats_analyzed := threats_analyzed suspicious_state + 1\<rparr>)
     = (initial_result one_oclock,
        suspicious_state\<lparr>threats_analyzed := 1,
          ip_requests := [''203.0.113.7'' \<mapsto> (1, 1714525260000)]\<rparr>)"
    by (simp add: analyzeIPThreat_def night_event_fields Let_def getIPRequestCount_def
        suspicious_state_def one_oclock_def)
  have ip3: "analyzeIPThreat three_oclock night_event
        (initial_result three_oclock,
         suspicious_state\<lparr>threats_analyzed := threats_analyzed suspicious_state + 1\<rparr>)
     = ((initial_result three_oclock)\<lparr>threatTypes := [''suspicious_timing''], confidence := 0.3\<rparr>,
        suspicious_state\<lparr>threats_analyzed := 1,
          ip_requests := [''203.0.113.7'' \<mapsto> (1, 1714532460000)]\<rparr>)"
    by (simp add: analyzeIPThreat_def night_event_fields Let_def getIPRequestCount_def
        getSuspiciousActivityScore_def suspicious_state_def three_oclock_def initial_result_def)
  have one: "confidence (fst (analyzeThreat (sample_env no_match) one_oclock suspicious_state night_event)) = 0"
    unfolding analyzeThreat_def Let_def ip1 fst_conv snd_conv
    by (simp add: analyzeGeolocation_unknown analyzeConstitutionalCompliance_no_match
        analyzeAnomalousActivity_quiet analyzePatternThreat_no_match analyzeUserAgent_absent
        night_event_fields suspicious_state_def calculateThreatScore_def initial_result_def)
  have three: "confidence (fst (analyzeThreat (sample_env no_match) three_oclock suspicious_state night_event)) = 0.3"
    unfolding analyzeThreat_def Let_def ip3 fst_conv snd_conv
    by (simp add: analyzeGeolocation_unknown analyzeConstitutionalCompliance_no_match
        analyzeAnomalousActivity_quiet analyzePatternThreat_no_match analyzeUserAgent_absent
        night_event_fields suspicious_state_def calculateThreatScore_def initial_result_def)
  show ?thesis using one three by simp
qed

text \<open>
  C8 as amended. With the clock reading held constant as well as the blacklist and the
  cache, \<open>analyzeThreat\<close> returns the same result (confidence included) whatever its
  counters are; and \<open>checkCompliance\<close> returns, for the same content, the same result
  up to its time stamp (score and the confidence of every violation included), whatever
  the clock and its counters are.
\<close>

theorem scores_fixed_by_content_state_and_clock:
  assumes "same_external_state st st'"
  shows "fst (analyzeThreat E c st ev) = fst (analyzeThreat E c st' ev)
     \<and> fst (checkCompliance E now s content) =
         (fst (checkCompliance E now' s' content))\<lparr>cr_timestamp := now\<rparr>"
  using analyzeThreat_same [OF assms] checkCompliance_result by blast

theorem scores_fixed_witness:
  "same_external_state busy_state (busy_state\<lparr>threats_analyzed := 7\<rparr>)
   \<and> fst (analyzeThreat (sample_env no_match) noon busy_state blacklisted_event) =
       fst (analyzeThreat (sample_env no_match) noon (busy_state\<lparr>threats_analyzed := 7\<rparr>)
         blacklisted_event)
   \<and> fst (checkCompliance (sample_env no_match) 5
         \<lparr>checks_performed = 0, violations_detected = 0, compliance_score = 0\<rparr> ''hello'') =
       (fst (checkCompliance (sample_env no_match) 9
         \<lparr>checks_performed = 3, violations_detected = 1, compliance_score = 0.5\<rparr> ''hello''))
         \<lparr>cr_timestamp := 5\<rparr>"
proof -
  have same: "same_external_state busy_state (busy_state\<lparr>threats_analyzed := 7\<rparr>)"
    by (simp add: same_external_state_def)
  show ?thesis
    using same scores_fixed_by_content_state_and_clock [OF same] by blast
qed


section \<open>AuditLogger\<close>

text \<open>
  The constants of \<open>auditConfig\<close> the code reads.
\<close>

definition encryption_enabled :: bool where
  "encryption_enabled = True"

definition batch_size :: nat where
  "batch_size = 100"

text \<open>The object \<open>checkConstitutionalCompliance\<close> returns.\<close>

record audit_compliance =
  ac_compliant :: bool
  ac_violations :: "(regex \<times> string) list"
  ac_score :: real
  checked_at :: nat

record audit_entry =
  e_id :: string
  e_timestamp :: nat
  event_type :: string
  event_data :: json
  e_metadata :: "(string \<times> json) list"
  constitutional_compliance :: audit_compliance
  e_severity :: severity
  hash :: "string option"
  encrypted :: bool

record violation_entry =
  audit_log_id :: string
  ve_timestamp :: nat
  ve_event_type :: string
  ve_violations :: "(regex \<times> string) list"
  ve_compliance_score :: real
  ve_severity :: severity
  investigation_status :: string

record integrity_report =
  total_logs :: nat
  valid_logs :: nat
  invalid_logs :: nat
  integrity_score :: real
  report_checked_at :: nat

text \<open>
  A document of the collection \<open>audit_integrity\<close>, one for each date: the report that
  \<open>replaceOne\<close> writes, and the fields that \<open>updateOne\<close> sets and increments.
\<close>

record integrity_doc =
  report :: "integrity_report option"
  daily_checksum :: "string option"
  log_count :: "nat option"
  last_updated :: "nat option"

text \<open>
  The logger: its buffer, key and counters, the three collections of the document
  store, and the lines it hands to the \<open>logger\<close> (level and message). \<open>db_ready\<close> is
  \<open>readyState === 1\<close>; while \<open>db_ok\<close> is false every store operation throws. A date is
  the number of its day, the server's time zone taken as UTC.
\<close>

record audit_state =
  logBuffer :: "audit_entry list"
  encryptionKey :: string
  logs_written :: nat
  logs_encrypted :: nat
  integrity_violations :: nat
  last_flush :: "nat option"
  total_size_bytes :: nat
  db_ready :: bool
  db_ok :: bool
  security_audit_logs :: "audit_entry list"
  constitutional_violations :: "violation_entry list"
  audit_integrity :: "int \<rightharpoonup> integrity_doc"
  logged :: "(string \<times> string) list"

definition log_line :: "string \<Rightarrow> string \<Rightarrow> audit_state \<Rightarrow> audit_state" where
  "log_line level msg st = st\<lparr>logged := logged st @ [(level, msg)]\<rparr>"

definition day_of :: "int \<Rightarrow> int" where
  "day_of t = t div 86400000"

text \<open>\<open>checkConstitutionalCompliance\<close> on the event data.\<close>

definition harmfulPatterns :: "regex list" where
  "harmfulPatterns =
     [js ''%b(illegal|harmful|dangerous|unethical|discriminatory)%b'',
      js ''%b(violent|threat|harm|kill|destroy)%b'',
      js ''%b(fraud|scam|phishing|malware)%b'',
      js ''%b(privacy.*violation|data.*breach)%b'']"

definition harmful_step :: "env \<Rightarrow> string \<Rightarrow> audit_compliance \<Rightarrow> regex \<Rightarrow> audit_compliance" where
  "harmful_step E dataString compliance pattern =
     (case rx_exec E pattern dataString of
        None \<Rightarrow> compliance
      | Some m \<Rightarrow>
          compliance\<lparr>ac_compliant := False,
            ac_violations := ac_violations compliance @ [(pattern, m)],
            ac_score := ac_score compliance - 0.2\<rparr>)"

definition checkConstitutionalCompliance :: "env \<Rightarrow> nat \<Rightarrow> json \<Rightarrow> audit_compliance" where
  "checkConstitutionalCompliance E now eventData =
     (let c0 = \<lparr>ac_compliant = True, ac_violations = [], ac_score = 1.0, checked_at = now\<rparr>;
          c1 = foldl (harmful_step E (stringify E eventData)) c0 harmfulPatterns
      in c1\<lparr>ac_score := max 0 (ac_score c1)\<rparr>)"

text \<open>
  \<open>determineSeverity\<close>. \<open>is_object\<close> is \<open>eventData && typeof eventData === 'object'\<close>;
  \<open>gt_zero\<close> is the comparison \<open>x > 0\<close> with the conversion of \<open>x\<close> to a number.
\<close>

definition severityMap_audit :: "string \<Rightarrow> severity" where
  "severityMap_audit eventType =
     (if eventType = ''threat_detected'' then High
      else if eventType = ''constitutional_violation'' then Critical
      else if eventType = ''authentication_failure'' then Medium
      else if eventType = ''system_error'' then Medium
      else if eventType = ''security_scan'' then Low
      else if eventType = ''login_success'' then Low
      else if eventType = ''data_access'' then Medium
      else if eventType = ''admin_action'' then High
      else if eventType = ''daily_report'' then Low
      else Medium)"

fun is_object :: "json \<Rightarrow> bool" where
  "is_object (JObj kvs) = True"
| "is_object (JArr xs) = True"
| "is_object (JDate t) = True"
| "is_object _ = False"

definition gt_zero :: "env \<Rightarrow> json option \<Rightarrow> bool" where
  "gt_zero E x =
     (case x of
        None \<Rightarrow> False
      | Some (JNum n) \<Rightarrow> n > 0
      | Some v \<Rightarrow> (case to_number E v of None \<Rightarrow> False | Some n \<Rightarrow> n > 0))"

definition determineSeverity :: "env \<Rightarrow> string \<Rightarrow> json \<Rightarrow> severity" where
  "determineSeverity E eventType eventData =
     (let baseSeverity = severityMap_audit eventType;
          b1 = (if is_object eventData
                   \<and> (gt_zero E (field eventData ''constitutional_violations'')
                        \<or> field eventData ''constitutional_compliant'' = Some (JBool False))
                then Critical else baseSeverity)
      in if is_object eventData
            \<and> (field eventData ''severity'' = Some (JStr ''critical'')
                 \<or> field eventData ''threat_level'' = Some (JStr ''critical''))
         then Critical else b1)"

text \<open>
  \<open>encryptData\<close> and \<open>decryptData\<close>. Where the cipher cannot be made the \<open>catch\<close> hands
  the data back as it is. \<open>decryptData\<close> hands its argument back when it is not marked
  as encrypted, and from its \<open>catch\<close>: on \<open>null\<close>, on a \<open>data\<close> field that is not a
  string, when the decipher cannot be made or rejects the text, and when the plain text
  does not parse. The warnings the two write to the \<open>logger\<close> are left out.
\<close>

definition encryptData :: "env \<Rightarrow> string \<Rightarrow> json \<Rightarrow> json" where
  "encryptData E key data =
     (case createCipher E key of
        None \<Rightarrow> data
      | Some cipher \<Rightarrow>
          JObj [(''encrypted'', JBool True),
                (''data'', JStr (cipher (stringify E data))),
                (''algorithm'', JStr ''aes-256-cbc'')])"

definition decryptData :: "env \<Rightarrow> string \<Rightarrow> json \<Rightarrow> json" where
  "decryptData E key encryptedData =
     (if encryptedData = JNull then encryptedData
      else if \<not> truthy (field encryptedData ''encrypted'')
              \<or> \<not> truthy (field encryptedData ''data'')
      then encryptedData
      else
        (case (createDecipher E key, field encryptedData ''data'') of
           (Some decipher, Some (JStr hex)) \<Rightarrow>
             (case decipher hex of
                None \<Rightarrow> encryptedData
              | Some decrypted \<Rightarrow>
                  (case parse E decrypted of
                     None \<Rightarrow> encryptedData
                   | Some v \<Rightarrow> v))
         | _ \<Rightarrow> encryptedData))"

text \<open>
  \<open>calculateEntryHash\<close>: the digest of the JSON text of the five canonical fields. For
  an entry with a time stamp nothing in the body throws, so the \<open>null\<close> of its
  \<open>catch\<close> does not arise.
\<close>

definition hashData :: "env \<Rightarrow> audit_entry \<Rightarrow> json" where
  "hashData E entry =
     JObj [(''id'', JStr (e_id entry)),
           (''timestamp'', JStr (toISOString E (e_timestamp entry))),
           (''event_type'', JStr (event_type entry)),
           (''event_data'', event_data entry),
           (''metadata'', JObj (e_metadata entry))]"

definition calculateEntryHash :: "env \<Rightarrow> audit_entry \<Rightarrow> string option" where
  "calculateEntryHash E entry = Some (sha256 E (stringify E (hashData E entry)))"


text \<open>
  The entry \<open>logSecurityEvent\<close> builds: the metadata with the fixed keys set after the
  caller's, the compliance check and the severity of the event data as given, then the
  event data encrypted, and last the hash of the entry as it then stands.
\<close>

definition or_null :: "json option \<Rightarrow> json" where
  "or_null x = (if truthy x then the x else JNull)"

definition entry_metadata :: "env \<Rightarrow> (string \<times> json) list \<Rightarrow> (string \<times> json) list" where
  "entry_metadata E md =
     (AList.update ''user_agent'' (or_null (map_of md ''user_agent''))
     (AList.update ''source_ip'' (or_null (map_of md ''source_ip''))
     (AList.update ''user_id'' (or_null (map_of md ''user_id''))
     (AList.update ''session_id'' (or_null (map_of md ''session_id''))
     (AList.update ''node_id''
        (JStr (case node_id E of None \<Rightarrow> ''primary''
               | Some n \<Rightarrow> (if n = [] then ''primary'' else n)))
     (AList.update ''source_system'' (JStr ''shinai-security-monitoring'') md))))))"

definition make_entry ::
  "env \<Rightarrow> string \<Rightarrow> string \<Rightarrow> nat \<Rightarrow> string \<Rightarrow> json \<Rightarrow> (string \<times> json) list \<Rightarrow> audit_entry" where
  "make_entry E key uuid now eventType eventData md =
     (let entry0 = \<lparr>e_id = uuid, e_timestamp = now, event_type = eventType,
                     event_data = eventData, e_metadata = entry_metadata E md,
                     constitutional_compliance = checkConstitutionalCompliance E now eventData,
                     e_severity = determineSeverity E eventType eventData,
                     hash = None, encrypted = encryption_enabled\<rparr>;
          entry1 = (if encryption_enabled
                    then entry0\<lparr>event_data := encryptData E key eventData, encrypted := True\<rparr>
                    else entry0)
      in entry1\<lparr>hash := calculateEntryHash E entry1\<rparr>)"

text \<open>The entry as the object that \<open>JSON.stringify\<close> measures for the byte counter.\<close>

definition entry_json :: "env \<Rightarrow> audit_entry \<Rightarrow> json" where
  "entry_json E entry =
     JObj [(''id'', JStr (e_id entry)),
           (''timestamp'', JDate (e_timestamp entry)),
           (''event_type'', JStr (event_type entry)),
           (''event_data'', event_data entry),
           (''metadata'', JObj (e_metadata entry)),
           (''constitutional_compliance'',
              JObj [(''compliant'', JBool (ac_compliant (constitutional_compliance entry))),
                    (''violations'',
                       JArr (map (\<lambda>v. JObj [(''pattern'', JStr (fst v)), (''matched'', JStr (snd v))])
                         (ac_violations (constitutional_compliance entry)))),
                    (''score'', JNum (ac_score (constitutional_compliance entry))),
                    (''checked_at'', JDate (checked_at (constitutional_compliance entry)))]),
           (''severity'', JStr (severity_name (e_severity entry))),
           (''hash'', (case hash entry of None \<Rightarrow> JNull | Some h \<Rightarrow> JStr h)),
           (''encrypted'', JBool (encrypted entry))]"

text \<open>
  \<open>handleConstitutionalViolation\<close>: one document for the violations collection; a failure
  of the store is caught and logged. (The counter it increments is not among the
  counters the constructor sets up and is left out.)
\<close>

definition handleConstitutionalViolation :: "nat \<Rightarrow> audit_entry \<Rightarrow> audit_state \<Rightarrow> audit_state" where
  "handleConstitutionalViolation now auditEntry st =
     (if \<not> db_ok st
      then log_line ''error'' ''Constitutional violation handling failed:'' st
      else log_line ''error'' ''CONSTITUTIONAL AI VIOLATION DETECTED:''
             (st\<lparr>constitutional_violations := constitutional_violations st @
                [\<lparr>audit_log_id = e_id auditEntry,
                  ve_timestamp = e_timestamp auditEntry,
                  ve_event_type = event_type auditEntry,
                  ve_violations = ac_violations (constitutional_compliance auditEntry),
                  ve_compliance_score = ac_score (constitutional_compliance auditEntry),
                  ve_severity = e_severity auditEntry,
                  investigation_status = ''pending''\<rparr>]\<rparr>))"

text \<open>
  \<open>updateIntegrityChecksum\<close>: the digest of the joined hashes of the flushed entries goes
  into today's document, made if it is not there; a failure of the store is caught.
\<close>

definition empty_doc :: integrity_doc where
  "empty_doc = \<lparr>report = None, daily_checksum = None, log_count = None, last_updated = None\<rparr>"

definition updateIntegrityChecksum ::
  "env \<Rightarrow> nat \<Rightarrow> audit_entry list \<Rightarrow> audit_state \<Rightarrow> audit_state" where
  "updateIntegrityChecksum E now logs st =
     (let totalHashes = filter (\<lambda>h. h \<noteq> []) (concat (map (\<lambda>l. case hash l of None \<Rightarrow> [] | Some h \<Rightarrow> [h]) logs))
      in if length totalHashes = 0 then st
         else if \<not> db_ok st then log_line ''warn'' ''Integrity checksum update error:'' st
         else
           (let today = day_of (int now);
                doc = (case audit_integrity st today of None \<Rightarrow> empty_doc | Some d \<Rightarrow> d);
                doc' = doc\<lparr>daily_checksum := Some (sha256 E (concat totalHashes)),
                         last_updated := Some now,
                         log_count := Some ((case log_count doc of None \<Rightarrow> 0 | Some n \<Rightarrow> n)
                                            + length totalHashes)\<rparr>
            in st\<lparr>audit_integrity := (audit_integrity st)(today \<mapsto> doc')\<rparr>))"

text \<open>
  What the store hands back for a document it was given. The driver of the document
  store, with its default options, writes a key that holds \<open>undefined\<close> (and
  \<open>undefined\<close> in an array) as \<open>null\<close>; dates, strings, numbers and the order of the
  keys come back as they went in.
\<close>

fun stored_value :: "json \<Rightarrow> json" where
  "stored_value JUndefined = JNull"
| "stored_value (JArr xs) = JArr (map stored_value xs)"
| "stored_value (JObj kvs) = JObj (map (\<lambda>kv. (fst kv, stored_value (snd kv))) kvs)"
| "stored_value v = v"

definition stored_doc :: "audit_entry \<Rightarrow> audit_entry" where
  "stored_doc entry =
     entry\<lparr>event_data := stored_value (event_data entry),
           e_metadata := map (\<lambda>kv. (fst kv, stored_value (snd kv))) (e_metadata entry)\<rparr>"

text \<open>
  \<open>flushLogBuffer\<close>. The buffer is copied to \<open>logsToFlush\<close> and emptied before the bulk
  insert is awaited; \<open>arrivals\<close> are the entries that other calls push onto the buffer
  while the insert is pending (none in a run without interleaving). The insert is made
  only on a ready connection and leaves in the collection what the store hands back for
  each entry; where it throws, the \<open>catch\<close> assigns the buffer appended to itself and
  throws again.
\<close>

definition flushLogBuffer ::
  "env \<Rightarrow> nat \<Rightarrow> audit_entry list \<Rightarrow> audit_state \<Rightarrow> (error + unit) \<times> audit_state" where
  "flushLogBuffer E now arrivals st =
     (if length (logBuffer st) = 0 then (Inr (), st)
      else
        (let logsToFlush = logBuffer st;
             st1 = st\<lparr>logBuffer := []\<rparr>
         in if db_ready st1 \<and> \<not> db_ok st1
            then
              (let st2 = st1\<lparr>logBuffer := logBuffer st1 @ arrivals\<rparr>;
                   st3 = log_line ''error'' ''Log buffer flush failed:'' st2
               in (Inl (Error ''insertMany failed''),
                   st3\<lparr>logBuffer := logBuffer st3 @ logBuffer st3\<rparr>))
            else
              (let st2 = (if db_ready st1
                          then st1\<lparr>security_audit_logs :=
                                 security_audit_logs st1 @ map stored_doc logsToFlush\<rparr>
                          else st1);
                   st3 = st2\<lparr>logBuffer := logBuffer st2 @ arrivals\<rparr>;
                   st4 = updateIntegrityChecksum E now logsToFlush st3;
                   st5 = st4\<lparr>last_flush := Some now\<rparr>
               in (Inr (), log_line ''debug'' ''Flushed audit logs to database'' st5))))"

text \<open>
  \<open>logSecurityEvent\<close>, with the identifier and the clock reading it draws. A flush that
  throws is logged and thrown on; the entry has been pushed by then.
\<close>

definition logSecurityEvent ::
  "env \<Rightarrow> string \<Rightarrow> nat \<Rightarrow> string \<Rightarrow> json \<Rightarrow> (string \<times> json) list \<Rightarrow> audit_state
     \<Rightarrow> (error + unit) \<times> audit_state" where
  "logSecurityEvent E uuid now eventType eventData md st =
     (let auditEntry = make_entry E (encryptionKey st) uuid now eventType eventData md;
          st1 = (if encryption_enabled then st\<lparr>logs_encrypted := logs_encrypted st + 1\<rparr> else st);
          st2 = st1\<lparr>logBuffer := logBuffer st1 @ [auditEntry],
                   logs_written := logs_written st1 + 1,
                   total_size_bytes := total_size_bytes st1
                     + length (stringify E (entry_json E auditEntry))\<rparr>;
          flushed = (if length (logBuffer st2) \<ge> batch_size
                     then flushLogBuffer E now [] st2 else (Inr (), st2))
      in case fst flushed of
           Inl e \<Rightarrow> (Inl e, log_line ''error'' ''Security event logging failed:'' (snd flushed))
         | Inr u \<Rightarrow>
             (let st3 = snd flushed;
                  st4 = (if \<not> ac_compliant (constitutional_compliance auditEntry)
                         then handleConstitutionalViolation now auditEntry st3 else st3)
              in (Inr (), log_line ''debug'' ''Security event logged:'' st4)))"

text \<open>
  \<open>performDailyIntegrityCheck\<close>: the entries of yesterday are read back, the hash of each
  is recomputed and compared, and the report replaces yesterday's document. A failure of
  the store is caught and logged.
\<close>

definition check_step :: "env \<Rightarrow> (nat \<times> nat) \<times> audit_state \<Rightarrow> audit_entry \<Rightarrow> (nat \<times> nat) \<times> audit_state" where
  "check_step E acc lg =
     (let validLogs = fst (fst acc); invalidLogs = snd (fst acc)
      in if calculateEntryHash E lg = hash lg
         then ((validLogs + 1, invalidLogs), snd acc)
         else ((validLogs, invalidLogs + 1),
               log_line ''error'' ''Integrity violation detected:'' (snd acc)))"

definition yesterday_of :: "nat \<Rightarrow> int" where
  "yesterday_of now = day_of (int now - 86400000)"

definition logs_of_day :: "int \<Rightarrow> audit_entry list \<Rightarrow> audit_entry list" where
  "logs_of_day d logs =
     filter (\<lambda>l. d * 86400000 \<le> int (e_timestamp l)
                 \<and> int (e_timestamp l) < d * 86400000 + 86399999) logs"

definition performDailyIntegrityCheck :: "env \<Rightarrow> nat \<Rightarrow> audit_state \<Rightarrow> audit_state" where
  "performDailyIntegrityCheck E now st =
     (if \<not> db_ok st then log_line ''error'' ''Daily integrity check failed:'' st
      else
        (let yesterday = yesterday_of now;
             logs = logs_of_day yesterday (security_audit_logs st);
             counted = foldl (check_step E) ((0, 0), st) logs;
             validLogs = fst (fst counted);
             invalidLogs = snd (fst counted);
             st1 = snd counted;
             integrityReport =
               \<lparr>total_logs = length logs, valid_logs = validLogs, invalid_logs = invalidLogs,
                integrity_score = (if length logs > 0
                                   then real validLogs / real (length logs) * 100 else 100),
                report_checked_at = now\<rparr>;
             st2 = st1\<lparr>audit_integrity := (audit_integrity st1)
                     (yesterday \<mapsto> empty_doc\<lparr>report := Some integrityReport\<rparr>)\<rparr>;
             st3 = (if invalidLogs > 0
                    then st2\<lparr>integrity_violations := integrity_violations st2 + invalidLogs\<rparr>
                    else st2)
         in log_line ''info'' ''Daily integrity check completed:'' st3))"

text \<open>
  \<open>searchLogs\<close>: the entries that meet the criteria, newest first, a thousand at most,
  each with its event data decrypted where the entry is marked encrypted.
\<close>

record criteria =
  c_event_type :: "string option"
  c_start_date :: "nat option"
  c_end_date :: "nat option"
  c_source_ip :: "string option"
  c_user_id :: "string option"
  c_severity :: "severity option"

definition meets :: "criteria \<Rightarrow> audit_entry \<Rightarrow> bool" where
  "meets cr lg =
     ((case c_event_type cr of None \<Rightarrow> True | Some t \<Rightarrow> event_type lg = t)
      \<and> (case (c_start_date cr, c_end_date cr) of
            (Some a, Some b) \<Rightarrow> a \<le> e_timestamp lg \<and> e_timestamp lg \<le> b
          | _ \<Rightarrow> True)
      \<and> (case c_source_ip cr of None \<Rightarrow> True
          | Some ip \<Rightarrow> map_of (e_metadata lg) ''source_ip'' = Some (JStr ip))
      \<and> (case c_user_id cr of None \<Rightarrow> True
          | Some u \<Rightarrow> map_of (e_metadata lg) ''user_id'' = Some (JStr u))
      \<and> (case c_severity cr of None \<Rightarrow> True | Some sv \<Rightarrow> e_severity lg = sv))"

definition decrypt_entry :: "env \<Rightarrow> string \<Rightarrow> audit_entry \<Rightarrow> audit_entry" where
  "decrypt_entry E key lg =
     lg\<lparr>event_data := (if encrypted lg then decryptData E key (event_data lg)
                         else event_data lg)\<rparr>"

definition searchLogs :: "env \<Rightarrow> criteria \<Rightarrow> audit_state \<Rightarrow> error + audit_entry list" where
  "searchLogs E cr st =
     (if \<not> db_ok st then Inl (Error ''find failed'')
      else Inr (map (decrypt_entry E (encryptionKey st))
                  (take 1000 (rev (sort_key e_timestamp
                     (filter (meets cr) (security_audit_logs st)))))))"


section \<open>Properties of the AuditLogger\<close>

text \<open>
  An entry is intact when its stored hash is the digest of its canonical fields.
\<close>

definition hash_ok :: "env \<Rightarrow> audit_entry \<Rightarrow> bool" where
  "hash_ok E entry = (hash entry = calculateEntryHash E entry)"

lemma calculateEntryHash_hash_update:
  "calculateEntryHash E (entry\<lparr>hash := h\<rparr>) = calculateEntryHash E entry"
  by (simp add: calculateEntryHash_def hashData_def)

lemma make_entry_hash_ok:
  "hash_ok E (make_entry E key uuid now eventType eventData md)"
  by (simp add: hash_ok_def make_entry_def Let_def calculateEntryHash_hash_update)

lemma log_line_fields [simp]:
  "logBuffer (log_line l m st) = logBuffer st"
  "security_audit_logs (log_line l m st) = security_audit_logs st"
  "audit_integrity (log_line l m st) = audit_integrity st"
  "db_ok (log_line l m st) = db_ok st"
  "db_ready (log_line l m st) = db_ready st"
  "integrity_violations (log_line l m st) = integrity_violations st"
  "encryptionKey (log_line l m st) = encryptionKey st"
  by (simp_all add: log_line_def)

lemma updateIntegrityChecksum_fields [simp]:
  "logBuffer (updateIntegrityChecksum E now logs st) = logBuffer st"
  "security_audit_logs (updateIntegrityChecksum E now logs st) = security_audit_logs st"
  "db_ok (updateIntegrityChecksum E now logs st) = db_ok st"
  "db_ready (updateIntegrityChecksum E now logs st) = db_ready st"
  "encryptionKey (updateIntegrityChecksum E now logs st) = encryptionKey st"
  by (simp_all add: updateIntegrityChecksum_def Let_def)

lemma handleConstitutionalViolation_fields [simp]:
  "logBuffer (handleConstitutionalViolation now e st) = logBuffer st"
  "security_audit_logs (handleConstitutionalViolation now e st) = security_audit_logs st"
  "db_ok (handleConstitutionalViolation now e st) = db_ok st"
  "db_ready (handleConstitutionalViolation now e st) = db_ready st"
  "encryptionKey (handleConstitutionalViolation now e st) = encryptionKey st"
  by (simp_all add: handleConstitutionalViolation_def)

lemma flushLogBuffer_buffer:
  "logBuffer (snd (flushLogBuffer E now arrivals st)) =
     (if logBuffer st = [] then []
      else if db_ready st \<and> \<not> db_ok st then arrivals @ arrivals
      else arrivals)"
  by (simp add: flushLogBuffer_def Let_def)

lemma flushLogBuffer_store:
  "security_audit_logs (snd (flushLogBuffer E now arrivals st)) =
     (if db_ready st \<and> db_ok st then security_audit_logs st @ map stored_doc (logBuffer st)
      else security_audit_logs st)"
  by (simp add: flushLogBuffer_def Let_def)

lemma flushLogBuffer_flags:
  "db_ok (snd (flushLogBuffer E now arrivals st)) = db_ok st"
  "db_ready (snd (flushLogBuffer E now arrivals st)) = db_ready st"
  "encryptionKey (snd (flushLogBuffer E now arrivals st)) = encryptionKey st"
  by (simp_all add: flushLogBuffer_def Let_def)

lemma flushLogBuffer_returns:
  "db_ready st \<and> db_ok st \<Longrightarrow> fst (flushLogBuffer E now arrivals st) = Inr ()"
  by (simp add: flushLogBuffer_def Let_def)

lemma foldl_check_step_counts:
  "fst (foldl (check_step E) ((v, i), st) logs) =
     (v + length (filter (hash_ok E) logs), i + length (filter (\<lambda>e. \<not> hash_ok E e) logs))"
  by (induction logs arbitrary: v i st) (auto simp: check_step_def hash_ok_def Let_def)

lemma foldl_check_step_state:
  "audit_integrity (snd (foldl (check_step E) a logs)) = audit_integrity (snd a)
   \<and> security_audit_logs (snd (foldl (check_step E) a logs)) = security_audit_logs (snd a)
   \<and> logBuffer (snd (foldl (check_step E) a logs)) = logBuffer (snd a)
   \<and> integrity_violations (snd (foldl (check_step E) a logs)) = integrity_violations (snd a)"
  by (induction logs arbitrary: a) (simp_all add: check_step_def Let_def)

text \<open>The report stored for a date, if there is one.\<close>

definition report_of :: "audit_state \<Rightarrow> int \<Rightarrow> integrity_report option" where
  "report_of st d = (case audit_integrity st d of None \<Rightarrow> None | Some doc \<Rightarrow> report doc)"

lemma performDailyIntegrityCheck_report:
  "db_ok st \<Longrightarrow>
   report_of (performDailyIntegrityCheck E now st) (yesterday_of now) =
     Some \<lparr>total_logs = length (logs_of_day (yesterday_of now) (security_audit_logs st)),
           valid_logs = length (filter (hash_ok E) (logs_of_day (yesterday_of now) (security_audit_logs st))),
           invalid_logs = length (filter (\<lambda>e. \<not> hash_ok E e) (logs_of_day (yesterday_of now) (security_audit_logs st))),
           integrity_score = (if length (logs_of_day (yesterday_of now) (security_audit_logs st)) > 0
              then real (length (filter (hash_ok E) (logs_of_day (yesterday_of now) (security_audit_logs st))))
                   / real (length (logs_of_day (yesterday_of now) (security_audit_logs st))) * 100 else 100),
           report_checked_at = now\<rparr>"
proof -
  assume ok: "db_ok st"
  let ?logs = "logs_of_day (yesterday_of now) (security_audit_logs st)"
  have cnt: "fst (foldl (check_step E) ((0, 0), st) ?logs) =
      (length (filter (hash_ok E) ?logs), length (filter (\<lambda>e. \<not> hash_ok E e) ?logs))"
    using foldl_check_step_counts [of E 0 0 st ?logs] by simp
  show ?thesis
    using ok
    by (simp add: performDailyIntegrityCheck_def Let_def report_of_def cnt empty_doc_def)
qed

text \<open>
  Sample data: the logger as its constructor leaves it, on a store that is up; an entry
  for an event of 1 May 2024, 12:00 UTC; and the logger with that entry buffered in
  front of a store whose bulk insert throws.
\<close>

definition initial_audit_state :: audit_state where
  "initial_audit_state =
     \<lparr>logBuffer = [], encryptionKey = ''k'', logs_written = 0, logs_encrypted = 0,
      integrity_violations = 0, last_flush = None, total_size_bytes = 0,
      db_ready = True, db_ok = True, security_audit_logs = [], constitutional_violations = [],
      audit_integrity = Map.empty, logged = []\<rparr>"

definition sample_entry :: "string \<Rightarrow> audit_entry" where
  "sample_entry uuid =
     make_entry (sample_env no_match) ''k'' uuid 1714564800000 ''threat_detected'' (JStr ''ping'') []"

definition failing_store_state :: audit_state where
  "failing_store_state = initial_audit_state\<lparr>logBuffer := [sample_entry ''id-1''], db_ok := False\<rparr>"

text \<open>
  C2. The claim: when a flush fails, every entry buffered at its start remains buffered
  exactly once and is retried. The \<open>catch\<close> of \<open>flushLogBuffer\<close> is meant to restore the
  buffer, but it appends the already emptied buffer to itself instead of the batch it
  took out. With one entry buffered and an insert that throws, the flush throws, the
  buffer is empty afterwards and the entry is in neither buffer nor store; an entry
  that arrives while the insert is pending ends up in the buffer twice.
\<close>

theorem flushLogBuffer_failed_insert:
  "fst (flushLogBuffer (sample_env no_match) 1714564805000 [] failing_store_state)
     = Inl (Error ''insertMany failed'')
   \<and> logBuffer (snd (flushLogBuffer (sample_env no_match) 1714564805000 [] failing_store_state)) = []
   \<and> security_audit_logs
        (snd (flushLogBuffer (sample_env no_match) 1714564805000 [] failing_store_state)) = []
   \<and> logBuffer (snd (flushLogBuffer (sample_env no_match) 1714564805000 [sample_entry ''id-2'']
        failing_store_state)) = [sample_entry ''id-2'', sample_entry ''id-2'']"
  by (simp add: flushLogBuffer_def Let_def failing_store_state_def initial_audit_state_def
      log_line_def)

lemma logSecurityEvent_below_batch:
  assumes "length (logBuffer st) + 1 < batch_size"
  shows "logBuffer (snd (logSecurityEvent E uuid now eventType eventData md st)) =
           logBuffer st @ [make_entry E (encryptionKey st) uuid now eventType eventData md]
         \<and> security_audit_logs (snd (logSecurityEvent E uuid now eventType eventData md st)) =
           security_audit_logs st
         \<and> fst (logSecurityEvent E uuid now eventType eventData md st) = Inr ()"
  using assms by (simp add: logSecurityEvent_def Let_def encryption_enabled_def)

lemma make_entry_timestamp:
  "e_timestamp (make_entry E key uuid now eventType eventData md) = now"
  by (simp add: make_entry_def Let_def)

text \<open>
  The entries the audit trail holds: those in the store, and those in the buffer as the
  store will hold them.
\<close>

definition recorded :: "audit_state \<Rightarrow> audit_entry list" where
  "recorded st = security_audit_logs st @ map stored_doc (logBuffer st)"

lemma logSecurityEvent_records:
  assumes "length (logBuffer st) + 1 < batch_size \<or> (db_ready st \<and> db_ok st)"
  shows "fst (logSecurityEvent E uuid now eventType eventData md st) = Inr ()
     \<and> recorded (snd (logSecurityEvent E uuid now eventType eventData md st)) =
         recorded st @ [stored_doc (make_entry E (encryptionKey st) uuid now eventType eventData md)]
     \<and> db_ready (snd (logSecurityEvent E uuid now eventType eventData md st)) = db_ready st
     \<and> db_ok (snd (logSecurityEvent E uuid now eventType eventData md st)) = db_ok st
     \<and> encryptionKey (snd (logSecurityEvent E uuid now eventType eventData md st)) = encryptionKey st
     \<and> length (logBuffer (snd (logSecurityEvent E uuid now eventType eventData md st)))
         \<le> length (logBuffer st) + 1"
proof -
  define entry where "entry = make_entry E (encryptionKey st) uuid now eventType eventData md"
  define st2 where
    "st2 = (if encryption_enabled then st\<lparr>logs_encrypted := logs_encrypted st + 1\<rparr> else st)
        \<lparr>logBuffer := logBuffer (if encryption_enabled then st\<lparr>logs_encrypted := logs_encrypted st + 1\<rparr> else st) @ [entry],
         logs_written := logs_written (if encryption_enabled then st\<lparr>logs_encrypted := logs_encrypted st + 1\<rparr> else st) + 1,
         total_size_bytes := total_size_bytes (if encryption_enabled then st\<lparr>logs_encrypted := logs_encrypted st + 1\<rparr> else st)
            + length (stringify E (entry_json E entry))\<rparr>"
  define flushed where
    "flushed = (if length (logBuffer st2) \<ge> batch_size
                then flushLogBuffer E now [] st2 else (Inr (), st2))"
  have f2: "logBuffer st2 = logBuffer st @ [entry]" "security_audit_logs st2 = security_audit_logs st"
    "db_ready st2 = db_ready st" "db_ok st2 = db_ok st" "encryptionKey st2 = encryptionKey st"
    by (simp_all add: st2_def)
  have up: "batch_size \<le> length (logBuffer st2) \<Longrightarrow> db_ready st2 \<and> db_ok st2"
    using assms by (auto simp: f2)
  have ok: "fst flushed = Inr ()"
    using up by (simp add: flushed_def flushLogBuffer_returns)
  have rec: "recorded (snd flushed) = recorded st @ [stored_doc entry]"
    using up by (auto simp: flushed_def recorded_def flushLogBuffer_store flushLogBuffer_buffer f2)
  have flags: "db_ready (snd flushed) = db_ready st" "db_ok (snd flushed) = db_ok st"
    "encryptionKey (snd flushed) = encryptionKey st"
    by (simp_all add: flushed_def flushLogBuffer_flags f2)
  have len: "length (logBuffer (snd flushed)) \<le> length (logBuffer st) + 1"
    by (simp add: flushed_def flushLogBuffer_buffer f2)
  have eq: "logSecurityEvent E uuid now eventType eventData md st =
     (case fst flushed of
        Inl e \<Rightarrow> (Inl e, log_line ''error'' ''Security event logging failed:'' (snd flushed))
      | Inr u \<Rightarrow>
          (Inr (), log_line ''debug'' ''Security event logged:''
             (if \<not> ac_compliant (constitutional_compliance entry)
              then handleConstitutionalViolation now entry (snd flushed) else snd flushed)))"
    unfolding logSecurityEvent_def Let_def flushed_def st2_def entry_def ..
  show ?thesis
    unfolding eq entry_def [symmetric]
    using ok rec flags len by (simp add: recorded_def)
qed

subsection \<open>The hash of a stored entry\<close>

text \<open>A runtime whose \<open>crypto\<close> module makes neither cipher nor decipher.\<close>

definition no_crypto_env :: env where
  "no_crypto_env = (sample_env no_match)\<lparr>createCipher := (\<lambda>k. None), createDecipher := (\<lambda>k. None)\<rparr>"

text \<open>
  One event logged at noon of 1 May 2024 by the logger as its constructor leaves it, and
  the buffer flushed five seconds later.
\<close>

definition logged_and_flushed :: "env \<Rightarrow> string \<Rightarrow> json \<Rightarrow> audit_state" where
  "logged_and_flushed E eventType eventData =
     snd (flushLogBuffer E 1714564805000 []
       (snd (logSecurityEvent E ''id-1'' 1714564800000 eventType eventData []
          initial_audit_state)))"

lemma logged_and_flushed_store:
  "security_audit_logs (logged_and_flushed E eventType eventData) =
     [stored_doc (make_entry E ''k'' ''id-1'' 1714564800000 eventType eventData [])]
   \<and> db_ok (logged_and_flushed E eventType eventData)
   \<and> encryptionKey (logged_and_flushed E eventType eventData) = ''k''"
proof -
  have below: "length (logBuffer initial_audit_state) + 1 < batch_size"
    by (simp add: initial_audit_state_def batch_size_def)
  note lg = logSecurityEvent_below_batch [OF below, of E "''id-1''" 1714564800000 eventType eventData "[]"]
  have room: "length (logBuffer initial_audit_state) + 1 < batch_size
      \<or> (db_ready initial_audit_state \<and> db_ok initial_audit_state)"
    using below by simp
  note fl = logSecurityEvent_records [OF room, of E "''id-1''" 1714564800000 eventType eventData "[]"]
  show ?thesis
    using lg fl
    by (simp add: logged_and_flushed_def flushLogBuffer_store flushLogBuffer_flags
        initial_audit_state_def)
qed

text \<open>
  With a cipher the stored event data is the wrapper \<open>{encrypted, data, algorithm}\<close>,
  which holds no \<open>undefined\<close>: for an entry logged without metadata of the caller, as
  \<open>processSecurityEvent\<close> logs it, the store returns the entry as it was built and its
  hash is the recomputed digest.
\<close>

lemma encrypted_entry_hash_ok:
  assumes "createCipher E key = Some cipher"
  shows "stored_doc (make_entry E key uuid now eventType eventData []) =
           make_entry E key uuid now eventType eventData []
       \<and> hash_ok E (stored_doc (make_entry E key uuid now eventType eventData []))"
proof -
  have "stored_doc (make_entry E key uuid now eventType eventData []) =
           make_entry E key uuid now eventType eventData []"
    using assms
    by (simp add: stored_doc_def make_entry_def Let_def encryption_enabled_def encryptData_def
        entry_metadata_def or_null_def)
  then show ?thesis by (simp add: make_entry_hash_ok)
qed

text \<open>
  The payload logged for a violation of an event without an id, as
  \<open>processSecurityEvent\<close> builds it: the metadata of the compliance result holds the key
  \<open>event_id\<close> with the value \<open>undefined\<close>.
\<close>

definition violation_sample :: json where
  "violation_sample =
     JObj [(''event'', JObj [(''type'', JStr ''http_request''), (''data'', JStr ''ping'')]),
           (''violation'',
              JObj [(''compliant'', JBool False),
                    (''metadata'',
                       JObj [(''event_type'', JStr ''http_request''),
                             (''event_id'', JUndefined)])]),
           (''timestamp'', JDate 1714564800000)]"

lemma violation_sample_stored_mismatch:
  "\<not> hash_ok no_crypto_env
      (stored_doc (make_entry no_crypto_env ''k'' ''id-1'' 1714564800000
         ''constitutional_violation'' violation_sample []))"
  by (simp add: hash_ok_def stored_doc_def make_entry_def Let_def calculateEntryHash_def
      hashData_def encryptData_def encryption_enabled_def entry_metadata_def or_null_def
      no_crypto_env_def sample_env_def violation_sample_def quoted_def sample_iso_def)

text \<open>
  C6. The claim: for every entry built by \<open>logSecurityEvent\<close> and stored by a flush,
  the digest recomputed after retrieval is the stored hash, so that an untampered entry
  is always counted valid. The hash is the digest of a JSON text, and \<open>JSON.stringify\<close>
  leaves out a key that holds \<open>undefined\<close>, while the store returns such a key with the
  value \<open>null\<close>. When the cipher cannot be made, the \<open>catch\<close> of \<open>encryptData\<close> hands
  back the payload itself and the payload is stored as it is. For the payload of a
  violation of an event without an id: the entry as built is intact, the store holds
  exactly that entry, nothing has changed it, and the integrity check of the next day
  reports one entry, none valid, one invalid.
\<close>

theorem untampered_entry_counted_invalid:
  "hash_ok no_crypto_env
      (make_entry no_crypto_env ''k'' ''id-1'' 1714564800000 ''constitutional_violation''
         violation_sample [])
   \<and> security_audit_logs (logged_and_flushed no_crypto_env ''constitutional_violation''
        violation_sample) =
       [stored_doc (make_entry no_crypto_env ''k'' ''id-1'' 1714564800000
          ''constitutional_violation'' violation_sample [])]
   \<and> report_of (performDailyIntegrityCheck no_crypto_env 1714618800000
         (logged_and_flushed no_crypto_env ''constitutional_violation'' violation_sample))
        (yesterday_of 1714618800000)
     = Some \<lparr>total_logs = 1, valid_logs = 0, invalid_logs = 1, integrity_score = 0,
             report_checked_at = 1714618800000\<rparr>"
proof -
  let ?E = no_crypto_env
  let ?st = "logged_and_flushed ?E ''constitutional_violation'' violation_sample"
  let ?e = "stored_doc (make_entry ?E ''k'' ''id-1'' 1714564800000
          ''constitutional_violation'' violation_sample [])"
  note st = logged_and_flushed_store [of ?E "''constitutional_violation''" violation_sample]
  have day: "logs_of_day (yesterday_of 1714618800000) [?e] = [?e]"
    by (simp add: logs_of_day_def yesterday_of_def day_of_def stored_doc_def make_entry_timestamp)
  have ok: "db_ok ?st" using st by simp
  show ?thesis
    using st performDailyIntegrityCheck_report [OF ok, of ?E 1714618800000]
    by (simp add: make_entry_hash_ok day violation_sample_stored_mismatch)
qed

text \<open>
  The same entry for an event that has an id holds no \<open>undefined\<close> and is found intact.
\<close>

lemma with_id_intact:
  "hash_ok no_crypto_env
      (stored_doc (make_entry no_crypto_env ''k'' ''id-1'' 1714564800000
         ''constitutional_violation''
         (JObj [(''event'', JObj [(''type'', JStr ''http_request''), (''data'', JStr ''ping'')]),
           (''violation'',
              JObj [(''compliant'', JBool False),
                    (''metadata'',
                       JObj [(''event_type'', JStr ''http_request''),
                             (''event_id'', JStr ''e-7'')])]),
           (''timestamp'', JDate 1714564800000)]) []))"
  by (simp add: hash_ok_def stored_doc_def make_entry_def Let_def calculateEntryHash_def
      hashData_def encryptData_def encryption_enabled_def entry_metadata_def or_null_def
      no_crypto_env_def sample_env_def quoted_def sample_iso_def)

subsection \<open>Decrypting what was encrypted\<close>

lemma decryptData_no_decipher:
  "createDecipher E key = None \<Longrightarrow> decryptData E key x = x"
  by (simp add: decryptData_def)

lemma decryptData_unmarked:
  "\<not> (truthy (field x ''encrypted'') \<and> truthy (field x ''data'')) \<Longrightarrow> decryptData E key x = x"
  by (auto simp: decryptData_def)

lemma truthy_stored_value:
  "truthy (Some (stored_value v)) = truthy (Some v)"
  by (cases v) simp_all

lemma map_of_stored:
  "map_of (map (\<lambda>kv. (fst kv, stored_value (snd kv))) kvs) k = map_option stored_value (map_of kvs k)"
  by (induction kvs) auto

lemma truthy_field_stored:
  "truthy (field (stored_value d) k) = truthy (field d k)"
proof (cases d)
  case (JObj kvs)
  show ?thesis
  proof (cases "map_of kvs k")
    case None
    then show ?thesis using JObj by (simp add: map_of_stored)
  next
    case (Some v)
    then show ?thesis using JObj by (cases v) (simp_all add: map_of_stored)
  qed
qed simp_all

lemma searchLogs_finds:
  assumes "db_ok st" and "e \<in> set (security_audit_logs st)" and "meets cr e"
    and "length (filter (meets cr) (security_audit_logs st)) \<le> 1000"
  shows "\<exists>results. searchLogs E cr st = Inr results
           \<and> decrypt_entry E (encryptionKey st) e \<in> set results"
proof -
  let ?found = "rev (sort_key e_timestamp (filter (meets cr) (security_audit_logs st)))"
  have "length ?found \<le> 1000" using assms(4) by simp
  then have "take 1000 ?found = ?found" by simp
  moreover have "e \<in> set ?found" using assms(2,3) by simp
  ultimately show ?thesis
    using assms(1) by (simp add: searchLogs_def)
qed

text \<open>A payload that holds a \<open>Date\<close>, and what \<open>JSON.parse\<close> makes of its JSON text.\<close>

definition dated_payload :: json where
  "dated_payload = JObj [(''timestamp'', JDate 1714564800000)]"

definition dated_image :: json where
  "dated_image = JObj [(''timestamp'', JStr ''2024-05-01T12:00:00.000Z'')]"

definition any_criteria :: criteria where
  "any_criteria = \<lparr>c_event_type = None, c_start_date = None, c_end_date = None,
     c_source_ip = None, c_user_id = None, c_severity = None\<rparr>"

lemma dated_round_trip:
  "decryptData (sample_env no_match) ''k'' (encryptData (sample_env no_match) ''k'' dated_payload)
     = dated_image"
  by (simp add: encryptData_def decryptData_def sample_env_def sample_decipher_def
      sample_parse_def sample_values_def dated_payload_def dated_image_def quoted_def
      sample_iso_def)

text \<open>
  C10 as stated fails: \<open>processSecurityEvent\<close> logs payloads with
  \<open>timestamp: new Date()\<close>. \<open>encryptData\<close> encrypts the JSON text of the payload and
  \<open>decryptData\<close> answers with \<open>JSON.parse\<close> of that text, in which the \<open>Date\<close> is its
  ISO string: the value returned is not structurally equal to the payload, and
  \<open>searchLogs\<close> returns the entry with the string where the \<open>Date\<close> was.
\<close>

theorem decrypted_date_is_text:
  "decryptData (sample_env no_match) ''k'' (encryptData (sample_env no_match) ''k'' dated_payload)
     = JObj [(''timestamp'', JStr ''2024-05-01T12:00:00.000Z'')]
   \<and> dated_payload = JObj [(''timestamp'', JDate 1714564800000)]
   \<and> searchLogs (sample_env no_match) any_criteria
        (logged_and_flushed (sample_env no_match) ''threat_detected'' dated_payload)
     = Inr [(stored_doc (make_entry (sample_env no_match) ''k'' ''id-1'' 1714564800000
               ''threat_detected'' dated_payload []))
             \<lparr>event_data := JObj [(''timestamp'', JStr ''2024-05-01T12:00:00.000Z'')]\<rparr>]"
proof -
  let ?E = "sample_env no_match"
  let ?e = "stored_doc (make_entry ?E ''k'' ''id-1'' 1714564800000 ''threat_detected'' dated_payload [])"
  note st = logged_and_flushed_store [of ?E "''threat_detected''" dated_payload]
  have wrapper: "event_data ?e = encryptData ?E ''k'' dated_payload"
    by (simp add: stored_doc_def make_entry_def Let_def encryption_enabled_def encryptData_def
        sample_env_def)
  have enc: "encrypted ?e"
    by (simp add: stored_doc_def make_entry_def Let_def encryption_enabled_def)
  have dec: "decrypt_entry ?E ''k'' ?e = ?e\<lparr>event_data := dated_image\<rparr>"
    by (simp add: decrypt_entry_def enc wrapper dated_round_trip)
  have found: "searchLogs ?E any_criteria (logged_and_flushed ?E ''threat_detected'' dated_payload)
      = Inr [decrypt_entry ?E ''k'' ?e]"
    using st by (simp add: searchLogs_def meets_def any_criteria_def)
  have a: "decryptData ?E ''k'' (encryptData ?E ''k'' dated_payload)
      = JObj [(''timestamp'', JStr ''2024-05-01T12:00:00.000Z'')]"
    using dated_round_trip by (simp add: dated_image_def)
  have b: "dated_payload = JObj [(''timestamp'', JDate 1714564800000)]"
    by (simp add: dated_payload_def)
  have c: "searchLogs ?E any_criteria (logged_and_flushed ?E ''threat_detected'' dated_payload)
      = Inr [?e\<lparr>event_data := JObj [(''timestamp'', JStr ''2024-05-01T12:00:00.000Z'')]\<rparr>]"
    using found dec by (simp add: dated_image_def)
  show ?thesis
    by (rule conjI [OF a conjI [OF b c]])
qed

text \<open>
  C10 as amended. Take a payload \<open>d\<close> logged by \<open>logSecurityEvent\<close> under the key of the
  process and held by the store. When the cipher can be made, let the decipher of the
  same key invert it on the JSON text of \<open>d\<close>, the cipher text be non-empty, and \<open>d'\<close> be
  what \<open>JSON.parse\<close> reads from that text; when it cannot, let the decipher fail as
  well, or \<open>d\<close> not look like a wrapper (\<open>encrypted\<close> and \<open>data\<close> both truthy). Then
  \<open>decryptData (encryptData d)\<close> is \<open>d'\<close>, the JSON image of \<open>d\<close>, when encryption
  succeeds, and \<open>d\<close> itself when it fails; and a search whose criteria the entry meets
  and which finds at most 1000 entries returns the entry with the event data \<open>d'\<close>, or in
  the degraded case with \<open>d\<close> as the store holds it.
\<close>

theorem searchLogs_returns_json_image:
  assumes cipher_ok: "\<forall>cipher. createCipher E key = Some cipher \<longrightarrow>
          cipher (stringify E d) \<noteq> []
          \<and> (\<exists>decipher. createDecipher E key = Some decipher
                \<and> decipher (cipher (stringify E d)) = Some (stringify E d))
          \<and> parse E (stringify E d) = Some d'"
    and degraded: "createCipher E key = None \<longrightarrow>
          createDecipher E key = None
          \<or> \<not> (truthy (field d ''encrypted'') \<and> truthy (field d ''data''))"
    and up: "db_ok st"
    and key: "encryptionKey st = key"
    and stored: "stored_doc (make_entry E key uuid now eventType d md) \<in> set (security_audit_logs st)"
    and met: "meets cr (stored_doc (make_entry E key uuid now eventType d md))"
    and few: "length (filter (meets cr) (security_audit_logs st)) \<le> 1000"
  shows "decryptData E key (encryptData E key d) = (if createCipher E key = None then d else d')
     \<and> (\<exists>results. searchLogs E cr st = Inr results
           \<and> (stored_doc (make_entry E key uuid now eventType d md))
                \<lparr>event_data := (if createCipher E key = None then stored_value d else d')\<rparr>
              \<in> set results)"
proof -
  let ?e = "stored_doc (make_entry E key uuid now eventType d md)"
  have ev: "event_data ?e = stored_value (encryptData E key d)" and enc: "encrypted ?e"
    by (simp_all add: stored_doc_def make_entry_def Let_def encryption_enabled_def)
  have both: "decryptData E key (encryptData E key d) = (if createCipher E key = None then d else d')
      \<and> decryptData E key (stored_value (encryptData E key d)) =
          (if createCipher E key = None then stored_value d else d')"
  proof (cases "createCipher E key")
    case None
    then have alt: "createDecipher E key = None
        \<or> \<not> (truthy (field d ''encrypted'') \<and> truthy (field d ''data''))"
      using degraded by simp
    have plain: "encryptData E key d = d"
      using None by (simp add: encryptData_def)
    have "decryptData E key d = d"
      using alt decryptData_no_decipher decryptData_unmarked by blast
    moreover have "decryptData E key (stored_value d) = stored_value d"
      using alt decryptData_no_decipher [of E key "stored_value d"]
        decryptData_unmarked [of "stored_value d" E key]
      by (auto simp: truthy_field_stored)
    ultimately show ?thesis using None plain by simp
  next
    case (Some cipher)
    from cipher_ok Some obtain decipher where
      ne: "cipher (stringify E d) \<noteq> []" and
      dec: "createDecipher E key = Some decipher" and
      inv: "decipher (cipher (stringify E d)) = Some (stringify E d)" and
      img: "parse E (stringify E d) = Some d'"
      by blast
    show ?thesis
      using Some ne dec inv img by (simp add: encryptData_def decryptData_def)
  qed
  have "decrypt_entry E key ?e =
      ?e\<lparr>event_data := (if createCipher E key = None then stored_value d else d')\<rparr>"
    using both by (simp add: decrypt_entry_def enc ev)
  then have "\<exists>results. searchLogs E cr st = Inr results
           \<and> ?e\<lparr>event_data := (if createCipher E key = None then stored_value d else d')\<rparr>
              \<in> set results"
    using searchLogs_finds [OF up stored met few, of E] key by simp
  then show ?thesis using both by simp
qed

text \<open>
  The theorem at the dated payload with the sample cipher, and at the payload of a
  violation in the runtime without cipher.
\<close>

theorem searchLogs_json_image_witness:
  "db_ok (logged_and_flushed (sample_env no_match) ''threat_detected'' dated_payload)
   \<and> parse (sample_env no_match) (stringify (sample_env no_match) dated_payload) = Some dated_image
   \<and> createCipher (sample_env no_match) ''k'' \<noteq> None
   \<and> decryptData (sample_env no_match) ''k'' (encryptData (sample_env no_match) ''k'' dated_payload)
       = dated_image
   \<and> (\<exists>results. searchLogs (sample_env no_match) any_criteria
          (logged_and_flushed (sample_env no_match) ''threat_detected'' dated_payload) = Inr results
        \<and> (stored_doc (make_entry (sample_env no_match) ''k'' ''id-1'' 1714564800000
               ''threat_detected'' dated_payload []))\<lparr>event_data := dated_image\<rparr> \<in> set results)
   \<and> createCipher no_crypto_env ''k'' = None
   \<and> createDecipher no_crypto_env ''k'' = None
   \<and> decryptData no_crypto_env ''k'' (encryptData no_crypto_env ''k'' violation_sample)
       = violation_sample
   \<and> (\<exists>results. searchLogs no_crypto_env any_criteria
          (logged_and_flushed no_crypto_env ''constitutional_violation'' violation_sample)
            = Inr results
        \<and> (stored_doc (make_entry no_crypto_env ''k'' ''id-1'' 1714564800000
               ''constitutional_violation'' violation_sample []))
              \<lparr>event_data := stored_value violation_sample\<rparr> \<in> set results)"
proof -
  let ?E = "sample_env no_match"
  let ?st = "logged_and_flushed ?E ''threat_detected'' dated_payload"
  let ?e = "stored_doc (make_entry ?E ''k'' ''id-1'' 1714564800000 ''threat_detected'' dated_payload [])"
  note st = logged_and_flushed_store [of ?E "''threat_detected''" dated_payload]
  have img: "parse ?E (stringify ?E dated_payload) = Some dated_image"
    by (simp add: sample_env_def sample_parse_def sample_values_def dated_payload_def
        dated_image_def quoted_def sample_iso_def)
  have cipher: "createCipher ?E ''k'' \<noteq> None"
    by (simp add: sample_env_def)
  have cipher_ok: "\<forall>cipher. createCipher ?E ''k'' = Some cipher \<longrightarrow>
          cipher (stringify ?E dated_payload) \<noteq> []
          \<and> (\<exists>decipher. createDecipher ?E ''k'' = Some decipher
                \<and> decipher (cipher (stringify ?E dated_payload)) = Some (stringify ?E dated_payload))
          \<and> parse ?E (stringify ?E dated_payload) = Some dated_image"
    using img by (auto simp: sample_env_def sample_decipher_def)
  have degraded: "createCipher ?E ''k'' = None \<longrightarrow>
          createDecipher ?E ''k'' = None
          \<or> \<not> (truthy (field dated_payload ''encrypted'') \<and> truthy (field dated_payload ''data''))"
    by (simp add: sample_env_def)
  have up: "db_ok ?st" and key: "encryptionKey ?st = ''k''"
    and stored: "?e \<in> set (security_audit_logs ?st)"
    using st by simp_all
  have met: "meets any_criteria ?e"
    by (simp add: meets_def any_criteria_def)
  have few: "length (filter (meets any_criteria) (security_audit_logs ?st)) \<le> 1000"
    using st by simp
  note th = searchLogs_returns_json_image [of ?E "''k''" dated_payload dated_image ?st
      "''id-1''" 1714564800000 "''threat_detected''" "[]" any_criteria,
      OF cipher_ok degraded up key stored met few]
  have first: "decryptData ?E ''k'' (encryptData ?E ''k'' dated_payload) = dated_image
     \<and> (\<exists>results. searchLogs ?E any_criteria ?st = Inr results
          \<and> ?e\<lparr>event_data := dated_image\<rparr> \<in> set results)"
    using th cipher by simp
  let ?N = no_crypto_env
  let ?st' = "logged_and_flushed ?N ''constitutional_violation'' violation_sample"
  let ?e' = "stored_doc (make_entry ?N ''k'' ''id-1'' 1714564800000
      ''constitutional_violation'' violation_sample [])"
  note st' = logged_and_flushed_store [of ?N "''constitutional_violation''" violation_sample]
  have none: "createCipher ?N ''k'' = None" and none': "createDecipher ?N ''k'' = None"
    by (simp_all add: no_crypto_env_def)
  have cipher_ok': "\<forall>cipher. createCipher ?N ''k'' = Some cipher \<longrightarrow>
          cipher (stringify ?N violation_sample) \<noteq> []
          \<and> (\<exists>decipher. createDecipher ?N ''k'' = Some decipher
                \<and> decipher (cipher (stringify ?N violation_sample))
                    = Some (stringify ?N violation_sample))
          \<and> parse ?N (stringify ?N violation_sample) = Some JNull"
    using none by simp
  have degraded': "createCipher ?N ''k'' = None \<longrightarrow>
          createDecipher ?N ''k'' = None
          \<or> \<not> (truthy (field violation_sample ''encrypted'')
               \<and> truthy (field violation_sample ''data''))"
    using none' by simp
  have up': "db_ok ?st'" and key': "encryptionKey ?st' = ''k''"
    and stored': "?e' \<in> set (security_audit_logs ?st')"
    using st' by simp_all
  have met': "meets any_criteria ?e'"
    by (simp add: meets_def any_criteria_def)
  have few': "length (filter (meets any_criteria) (security_audit_logs ?st')) \<le> 1000"
    using st' by simp
  note th' = searchLogs_returns_json_image [of ?N "''k''" violation_sample JNull ?st'
      "''id-1''" 1714564800000 "''constitutional_violation''" "[]" any_criteria,
      OF cipher_ok' degraded' up' key' stored' met' few']
  have second: "decryptData ?N ''k'' (encryptData ?N ''k'' violation_sample) = violation_sample
     \<and> (\<exists>results. searchLogs ?N any_criteria ?st' = Inr results
          \<and> ?e'\<lparr>event_data := stored_value violation_sample\<rparr> \<in> set results)"
    using th' none by simp
  show ?thesis
    using up img cipher first none none' second by blast
qed


section \<open>AlertManager\<close>

text \<open>
  The configuration of the three alert types: the cool-down in seconds and the channels.
\<close>

definition alert_cooldown :: "string \<Rightarrow> nat" where
  "alert_cooldown alertType =
     (if alertType = ''threat'' then 300
      else if alertType = ''compliance'' then 600
      else if alertType = ''system'' then 900
      else 300)"

definition alert_channels :: "string \<Rightarrow> string list" where
  "alert_channels alertType =
     (if alertType = ''threat'' then [''email'', ''webhook'', ''log'']
      else if alertType = ''compliance'' then [''email'', ''webhook'', ''log'', ''audit'']
      else if alertType = ''system'' then [''email'', ''log'']
      else [])"

text \<open>
  An alert as handed to \<open>executeAlert\<close>, with the channels that delivered it. (Its
  payload and the recommended actions, a list of fixed texts, are left out.)
\<close>

record alert =
  alert_id :: string
  alert_type :: string
  alert_level :: severity
  alert_time :: nat
  delivered :: "string list"

text \<open>
  The manager: the cool-down keys of the cache, each with the time in milliseconds at
  which it expires; whether the cache, the mail transport and the webhook are configured
  and answer; the counters; the alerts dispatched; the audit keys written; the lines
  handed to the \<open>logger\<close>.
\<close>

record alert_state =
  cooldowns :: "string \<rightharpoonup> nat"
  alert_cache_up :: bool
  mail_configured :: bool
  mail_ok :: bool
  webhook_configured :: bool
  webhook_ok :: bool
  alerts_sent :: nat
  emails_sent :: nat
  webhooks_sent :: nat
  failed_deliveries :: nat
  last_alert :: "nat option"
  dispatched :: "alert list"
  audit_alerts :: "string list"
  alert_logged :: "(string \<times> string) list"

definition alert_log :: "string \<Rightarrow> string \<Rightarrow> alert_state \<Rightarrow> alert_state" where
  "alert_log level msg st = st\<lparr>alert_logged := alert_logged st @ [(level, msg)]\<rparr>"

definition cooldown_key :: "string \<Rightarrow> string \<Rightarrow> string" where
  "cooldown_key alertType identifier = ''alert:cooldown:'' @ alertType @ '':'' @ identifier"

text \<open>
  \<open>isInCooldown\<close> and \<open>setCooldown\<close> at clock reading \<open>now\<close>: a key exists until its
  time to live has run out. A cache failure makes the first answer \<open>false\<close> and is only
  logged by the second.
\<close>

definition isInCooldown :: "nat \<Rightarrow> alert_state \<Rightarrow> string \<Rightarrow> string \<Rightarrow> bool" where
  "isInCooldown now st alertType identifier =
     (if \<not> alert_cache_up st then False
      else (case cooldowns st (cooldown_key alertType identifier) of
              None \<Rightarrow> False
            | Some expires \<Rightarrow> now < expires))"

definition setCooldown :: "nat \<Rightarrow> string \<Rightarrow> string \<Rightarrow> alert_state \<Rightarrow> alert_state" where
  "setCooldown now alertType identifier st =
     (if \<not> alert_cache_up st then alert_log ''warn'' ''Cooldown setting failed:'' st
      else st\<lparr>cooldowns := (cooldowns st)
             (cooldown_key alertType identifier \<mapsto> now + alert_cooldown alertType * 1000)\<rparr>)"

text \<open>
  The channels. Each either delivers (and updates the state) or rejects; \<open>executeAlert\<close>
  waits for all of them, logs the rejections and never throws.
\<close>

definition send_channel :: "alert \<Rightarrow> string \<Rightarrow> alert_state \<Rightarrow> bool \<times> alert_state" where
  "send_channel a channel st =
     (if channel = ''email''
      then (if mail_configured st \<and> mail_ok st
            then (True, alert_log ''debug'' ''Email alert sent successfully''
                          (st\<lparr>emails_sent := emails_sent st + 1\<rparr>))
            else (False, st))
      else if channel = ''webhook''
      then (if webhook_configured st \<and> webhook_ok st
            then (True, alert_log ''debug'' ''Webhook alert sent successfully''
                          (st\<lparr>webhooks_sent := webhooks_sent st + 1\<rparr>))
            else (False, st))
      else if channel = ''log''
      then (True, alert_log (if alert_level a = Critical then ''error'' else ''warn'')
                    ''SECURITY ALERT:'' st)
      else if channel = ''audit''
      then (if alert_cache_up st
            then (True, alert_log ''info'' ''Audit alert recorded''
                          (st\<lparr>audit_alerts := audit_alerts st @ [''audit:alert:'' @ alert_id a]\<rparr>))
            else (False, st))
      else (True, st))"

fun run_channels :: "alert \<Rightarrow> string list \<Rightarrow> alert_state \<Rightarrow> (string \<times> bool) list \<times> alert_state" where
  "run_channels a [] st = ([], st)"
| "run_channels a (ch # chs) st =
     (let sent = send_channel a ch st;
          others = run_channels a chs (snd sent)
      in ((ch, fst sent) # fst others, snd others))"

definition executeAlert :: "string \<Rightarrow> alert \<Rightarrow> alert_state \<Rightarrow> alert_state" where
  "executeAlert alertType a st =
     (let ran = run_channels a (alert_channels alertType) st;
          failed = map fst (filter (\<lambda>r. \<not> snd r) (fst ran));
          st1 = foldl (\<lambda>s ch. alert_log ''warn'' (''Alert delivery failed for channel '' @ ch) s)
                  (snd ran) failed
      in st1\<lparr>dispatched := dispatched st1 @
                [a\<lparr>delivered := map fst (filter snd (fst ran))\<rparr>]\<rparr>)"

text \<open>
  \<open>sendThreatAlert\<close>. The identifier of the cool-down is \<open>threatResult.metadata.source_ip\<close>,
  and \<open>general\<close> where that is undefined. Nothing in the body throws, so its
  \<open>catch\<close> is not reached.
\<close>

definition threat_identifier :: "env \<Rightarrow> analysis_result \<Rightarrow> string" where
  "threat_identifier E threatResult =
     (case field (JObj (metadata threatResult)) ''source_ip'' of
        None \<Rightarrow> ''general''
      | Some v \<Rightarrow> text_of E v)"

definition sendThreatAlert ::
  "env \<Rightarrow> string \<Rightarrow> nat \<Rightarrow> analysis_result \<Rightarrow> alert_state \<Rightarrow> alert_state" where
  "sendThreatAlert E uuid now threatResult st =
     (let alertType = ''threat'';
          identifier = threat_identifier E threatResult
      in if isInCooldown now st alertType identifier
         then alert_log ''debug'' ''Threat alert in cooldown period, skipping'' st
         else
           (let alertData = \<lparr>alert_id = uuid, alert_type = alertType,
                              alert_level = severity threatResult, alert_time = now,
                              delivered = []\<rparr>;
                st1 = executeAlert alertType alertData st;
                st2 = setCooldown now alertType identifier st1;
                st3 = st2\<lparr>alerts_sent := alerts_sent st2 + 1, last_alert := Some now\<rparr>
            in alert_log ''info'' ''Threat alert sent successfully:'' st3))"

text \<open>
  \<open>sendComplianceAlert\<close>: a result with a critical violation is sent whatever the
  cool-down says and sets none.
\<close>

definition mapComplianceToLevel :: "compliance_result \<Rightarrow> severity" where
  "mapComplianceToLevel complianceResult =
     (if score complianceResult < 0.5 then Critical
      else if score complianceResult < 0.7 then High
      else if score complianceResult < 0.9 then Medium
      else Low)"

definition sendComplianceAlert ::
  "string \<Rightarrow> nat \<Rightarrow> compliance_result \<Rightarrow> alert_state \<Rightarrow> alert_state" where
  "sendComplianceAlert uuid now complianceResult st =
     (let alertType = ''compliance'';
          isCriticalViolation =
            list_ex (\<lambda>v. viol_severity v = Critical) (violations complianceResult)
      in if \<not> isCriticalViolation \<and> isInCooldown now st alertType ''general''
         then alert_log ''debug'' ''Compliance alert in cooldown period, skipping'' st
         else
           (let alertData = \<lparr>alert_id = uuid, alert_type = alertType,
                              alert_level = mapComplianceToLevel complianceResult,
                              alert_time = now, delivered = []\<rparr>;
                st1 = executeAlert alertType alertData st;
                st2 = (if \<not> isCriticalViolation
                       then setCooldown now alertType ''general'' st1 else st1);
                st3 = st2\<lparr>alerts_sent := alerts_sent st2 + 1, last_alert := Some now\<rparr>
            in alert_log ''error'' ''Constitutional AI compliance violation alert sent:'' st3))"



section \<open>The monitoring service\<close>

text \<open>
  \<open>checkEventCompliance\<close>: the JSON text of the data, the user agent, the referer and
  the JSON text of the metadata, those of positive length joined by blanks, go through
  \<open>checkCompliance\<close>; the result gets the event's type, address, time stamp and id as
  metadata, each key present and \<open>undefined\<close> where the event has no such field.
\<close>

definition has_length :: "env \<Rightarrow> json \<Rightarrow> bool" where
  "has_length E v =
     (case v of
        JStr t \<Rightarrow> t \<noteq> []
      | JArr xs \<Rightarrow> xs \<noteq> []
      | JObj kvs \<Rightarrow> gt_zero E (field v ''length'')
      | _ \<Rightarrow> False)"

definition or_empty :: "json option \<Rightarrow> json" where
  "or_empty x = (if truthy x then the x else JStr [])"

fun join_blank :: "string list \<Rightarrow> string" where
  "join_blank [] = []"
| "join_blank [x] = x"
| "join_blank (x # y # ys) = x @ '' '' @ join_blank (y # ys)"

definition event_contents :: "env \<Rightarrow> json \<Rightarrow> string" where
  "event_contents E eventData =
     (let contents =
            [(if truthy (field eventData ''data'')
              then JStr (stringify E (the (field eventData ''data''))) else JStr []),
             or_empty (opt_field (field eventData ''source'') ''userAgent''),
             or_empty (opt_field (field eventData ''source'') ''referer''),
             (if truthy (field eventData ''metadata'')
              then JStr (stringify E (the (field eventData ''metadata''))) else JStr [])]
      in join_blank (map (text_of E) (filter (has_length E) contents)))"

definition or_undefined :: "json option \<Rightarrow> json" where
  "or_undefined x = (case x of None \<Rightarrow> JUndefined | Some v \<Rightarrow> v)"

definition checkEventCompliance ::
  "env \<Rightarrow> nat \<Rightarrow> cc_stats \<Rightarrow> json \<Rightarrow> compliance_result \<times> cc_stats" where
  "checkEventCompliance E now st eventData =
     (let checked = checkCompliance E now st (event_contents E eventData);
          result = fst checked
      in (result\<lparr>cr_metadata :=
             AList.update ''event_id'' (or_undefined (field eventData ''id''))
             (AList.update ''timestamp'' (or_undefined (field eventData ''timestamp''))
             (AList.update ''source_ip''
                (or_undefined (opt_field (field eventData ''source'') ''ip''))
             (AList.update ''event_type'' (or_undefined (field eventData ''type''))
                (cr_metadata result))))\<rparr>,
          snd checked))"

text \<open>
  \<open>validateSecurityEvent\<close>. The two checks of the \<open>validator\<close> library throw a
  \<open>TypeError\<close> on a value that is not a string.
\<close>

definition validateSecurityEvent :: "env \<Rightarrow> json \<Rightarrow> error + bool" where
  "validateSecurityEvent E eventData =
     (if \<not> is_object eventData then Inr False
      else if \<not> list_all (\<lambda>f. truthy (field eventData f))
                  [''timestamp'', ''type'', ''source'', ''data'']
      then Inr False
      else
        (let ip = opt_field (field eventData ''source'') ''ip''
         in case (if truthy ip
                  then (case ip of
                          Some (JStr a) \<Rightarrow> Inr (isIP E a)
                        | _ \<Rightarrow> Inl (Error ''TypeError''))
                  else Inr True) of
              Inl e \<Rightarrow> Inl e
            | Inr False \<Rightarrow> Inr False
            | Inr True \<Rightarrow>
                (case field eventData ''timestamp'' of
                   Some (JStr t) \<Rightarrow> Inr (isISO8601 E t)
                 | _ \<Rightarrow> Inl (Error ''TypeError''))))"

text \<open>
  The two scorers as the service holds them: objects handed to its constructor, whose
  \<open>analyzeThreat\<close> and \<open>checkEventCompliance\<close> return a result or throw (each ends in a
  \<open>catch\<close> that logs and throws again). \<open>real_scorers\<close> are the detector and the checker
  modelled above.
\<close>

record scorers =
  analyze_fn :: "td_state \<Rightarrow> json \<Rightarrow> (error + analysis_result) \<times> td_state"
  check_fn :: "cc_stats \<Rightarrow> json \<Rightarrow> (error + compliance_result) \<times> cc_stats"

definition real_scorers :: "env \<Rightarrow> clock \<Rightarrow> scorers" where
  "real_scorers E c =
     \<lparr>analyze_fn = (\<lambda>st ev. (Inr (fst (analyzeThreat E c st ev)), snd (analyzeThreat E c st ev))),
      check_fn = (\<lambda>st ev. (Inr (fst (checkEventCompliance E (now_ms c) st ev)),
                            snd (checkEventCompliance E (now_ms c) st ev)))\<rparr>"

record service =
  processed_events :: nat
  app_threats_detected :: nat
  app_alerts_sent :: nat
  app_constitutional_violations :: nat
  detector :: td_state
  checker :: cc_stats
  alertManager :: alert_state
  auditLogger :: audit_state
  app_logged :: "(string \<times> string) list"

definition app_log :: "string \<Rightarrow> string \<Rightarrow> service \<Rightarrow> service" where
  "app_log level msg sv = sv\<lparr>app_logged := app_logged sv @ [(level, msg)]\<rparr>"

text \<open>The identifiers that one run of \<open>processSecurityEvent\<close> may draw.\<close>

record draws =
  threat_alert_id :: string
  threat_entry_id :: string
  compliance_alert_id :: string
  compliance_entry_id :: string

text \<open>
  The results as the objects that are logged.
\<close>

definition threat_json :: "env \<Rightarrow> analysis_result \<Rightarrow> json" where
  "threat_json E r =
     JObj [(''isThreat'', JBool (isThreat r)),
           (''threatTypes'', JArr (map JStr (threatTypes r))),
           (''severity'', JStr (severity_name (severity r))),
           (''confidence'', JNum (confidence r)),
           (''metadata'', JObj (metadata r)),
           (''timestamp'', JDate (timestamp r)),
           (''constitutional_compliant'', JBool (constitutional_compliant r))]"

definition violation_json :: "violation \<Rightarrow> json" where
  "violation_json v =
     JObj [(''principle'', JStr (principle v)),
           (''severity'', JStr (severity_name (viol_severity v))),
           (''confidence'', JNum (viol_confidence v)),
           (''matched_patterns'',
              JArr (map (\<lambda>m. JObj [(''pattern'', JStr (fst m)), (''matches'', JArr [JStr (snd m)])])
                (viol_matched_patterns v))),
           (''context'', JArr (map JStr (viol_context v)))]"

definition compliance_json :: "env \<Rightarrow> compliance_result \<Rightarrow> json" where
  "compliance_json E cr =
     JObj [(''compliant'', JBool (compliant cr)),
           (''violations'', JArr (map violation_json (violations cr))),
           (''score'', JNum (score cr)),
           (''principles_checked'', JArr (map JStr (principles_checked cr))),
           (''timestamp'', JDate (cr_timestamp cr)),
           (''metadata'', JObj (cr_metadata cr))]"

definition threat_payload :: "env \<Rightarrow> clock \<Rightarrow> json \<Rightarrow> analysis_result \<Rightarrow> json" where
  "threat_payload E c eventData threatResult =
     JObj [(''event'', eventData),
           (''threat'', threat_json E threatResult),
           (''timestamp'', JDate (now_ms c))]"

definition violation_payload :: "env \<Rightarrow> clock \<Rightarrow> json \<Rightarrow> compliance_result \<Rightarrow> json" where
  "violation_payload E c eventData complianceResult =
     JObj [(''event'', eventData),
           (''violation'', compliance_json E complianceResult),
           (''timestamp'', JDate (now_ms c))]"

text \<open>
  \<open>processSecurityEvent\<close> in its two halves, each ending at the first exception. Only
  a threat is alerted and logged; only a violation is alerted and logged.
\<close>

definition threat_phase ::
  "scorers \<Rightarrow> env \<Rightarrow> clock \<Rightarrow> draws \<Rightarrow> json \<Rightarrow> service \<Rightarrow> (error + unit) \<times> service" where
  "threat_phase S E c ids eventData sv =
     (let analysed = analyze_fn S (detector sv) eventData;
          sv1 = sv\<lparr>detector := snd analysed\<rparr>
      in case fst analysed of
           Inl e \<Rightarrow> (Inl e, sv1)
         | Inr threatResult \<Rightarrow>
             (if isThreat threatResult
              then
                (let sv2 = sv1\<lparr>app_threats_detected := app_threats_detected sv1 + 1\<rparr>;
                     sv3 = sv2\<lparr>alertManager :=
                             sendThreatAlert E (threat_alert_id ids) (now_ms c) threatResult
                               (alertManager sv2)\<rparr>;
                     sv4 = sv3\<lparr>app_alerts_sent := app_alerts_sent sv3 + 1\<rparr>;
                     written = logSecurityEvent E (threat_entry_id ids) (now_ms c)
                                 ''threat_detected''
                                 (threat_payload E c eventData threatResult) []
                                 (auditLogger sv4)
                 in (fst written, sv4\<lparr>auditLogger := snd written\<rparr>))
              else (Inr (), sv1)))"

definition compliance_phase ::
  "scorers \<Rightarrow> env \<Rightarrow> clock \<Rightarrow> draws \<Rightarrow> json \<Rightarrow> service \<Rightarrow> (error + unit) \<times> service" where
  "compliance_phase S E c ids eventData sv =
     (let checked = check_fn S (checker sv) eventData;
          sv1 = sv\<lparr>checker := snd checked\<rparr>
      in case fst checked of
           Inl e \<Rightarrow> (Inl e, sv1)
         | Inr complianceResult \<Rightarrow>
             (if \<not> compliant complianceResult
              then
                (let sv2 = sv1\<lparr>app_constitutional_violations :=
                             app_constitutional_violations sv1 + 1\<rparr>;
                     sv3 = sv2\<lparr>alertManager :=
                             sendComplianceAlert (compliance_alert_id ids) (now_ms c)
                               complianceResult (alertManager sv2)\<rparr>;
                     written = logSecurityEvent E (compliance_entry_id ids) (now_ms c)
                                 ''constitutional_violation''
                                 (violation_payload E c eventData complianceResult) []
                                 (auditLogger sv3)
                 in (fst written, sv3\<lparr>auditLogger := snd written\<rparr>))
              else (Inr (), sv1)))"

text \<open>
  \<open>processSecurityEvent\<close>: an invalid event is logged and dropped; any exception is
  logged by the \<open>catch\<close> and thrown again. (\<open>updateSecurityMetrics\<close>, which closes the
  run, increments counters of the monitor in the cache and swallows its own failures;
  it is left out.)
\<close>

definition processSecurityEvent ::
  "scorers \<Rightarrow> env \<Rightarrow> clock \<Rightarrow> draws \<Rightarrow> json \<Rightarrow> service \<Rightarrow> (error + unit) \<times> service" where
  "processSecurityEvent S E c ids eventData sv =
     (let sv0 = sv\<lparr>processed_events := processed_events sv + 1\<rparr>
      in case validateSecurityEvent E eventData of
           Inl e \<Rightarrow> (Inl e, app_log ''error'' ''Security event processing error:'' sv0)
         | Inr False \<Rightarrow> (Inr (), app_log ''warn'' ''Invalid security event received:'' sv0)
         | Inr True \<Rightarrow>
             (let threat = threat_phase S E c ids eventData sv0
              in case fst threat of
                   Inl e \<Rightarrow>
                     (Inl e, app_log ''error'' ''Security event processing error:'' (snd threat))
                 | Inr u \<Rightarrow>
                     (let compliance = compliance_phase S E c ids eventData (snd threat)
                      in case fst compliance of
                           Inl e \<Rightarrow>
                             (Inl e, app_log ''error'' ''Security event processing error:''
                                       (snd compliance))
                         | Inr u' \<Rightarrow> (Inr (), snd compliance))))"



text \<open>
  The timer that \<open>startIntegrityChecks\<close> sets ticks every minute and runs the daily check
  of the audit logger at three o'clock; the logger has no reference to the alert
  manager.
\<close>

definition integrity_tick :: "env \<Rightarrow> clock \<Rightarrow> service \<Rightarrow> service" where
  "integrity_tick E c sv =
     (if local_hour c = 3 \<and> local_minute c = 0
      then sv\<lparr>auditLogger := performDailyIntegrityCheck E (now_ms c) (auditLogger sv)\<rparr>
      else sv)"


section \<open>Properties of the AlertManager\<close>

lemma alert_log_fields [simp]:
  "cooldowns (alert_log l m st) = cooldowns st"
  "alert_cache_up (alert_log l m st) = alert_cache_up st"
  "dispatched (alert_log l m st) = dispatched st"
  by (simp_all add: alert_log_def)

lemma send_channel_fields [simp]:
  "cooldowns (snd (send_channel a ch st)) = cooldowns st"
  "alert_cache_up (snd (send_channel a ch st)) = alert_cache_up st"
  "dispatched (snd (send_channel a ch st)) = dispatched st"
  by (simp_all add: send_channel_def)

lemma run_channels_fields [simp]:
  "cooldowns (snd (run_channels a chs st)) = cooldowns st"
  "alert_cache_up (snd (run_channels a chs st)) = alert_cache_up st"
  "dispatched (snd (run_channels a chs st)) = dispatched st"
  by (induction chs arbitrary: st) (simp_all add: Let_def)

lemma foldl_alert_log_fields [simp]:
  "cooldowns (foldl (\<lambda>s ch. alert_log l (f ch) s) st chs) = cooldowns st"
  "alert_cache_up (foldl (\<lambda>s ch. alert_log l (f ch) s) st chs) = alert_cache_up st"
  "dispatched (foldl (\<lambda>s ch. alert_log l (f ch) s) st chs) = dispatched st"
  by (induction chs arbitrary: st) simp_all

lemma executeAlert_fields:
  "cooldowns (executeAlert t a st) = cooldowns st"
  "alert_cache_up (executeAlert t a st) = alert_cache_up st"
  "length (dispatched (executeAlert t a st)) = length (dispatched st) + 1"
  by (simp_all add: executeAlert_def Let_def)


text \<open>
  \<open>sendSystemAlert\<close>, the third sender, which logs a failure instead of throwing it.
\<close>

definition sendSystemAlert :: "string \<Rightarrow> nat \<Rightarrow> string \<Rightarrow> string \<Rightarrow> alert_state \<Rightarrow> alert_state" where
  "sendSystemAlert uuid now systemStatus message st =
     (let alertType = ''system''
      in if isInCooldown now st alertType ''general'' then st
         else
           (let alertData = \<lparr>alert_id = uuid, alert_type = alertType,
                              alert_level = (if systemStatus = ''error'' then High else Medium),
                              alert_time = now, delivered = []\<rparr>;
                st1 = executeAlert alertType alertData st;
                st2 = setCooldown now alertType ''general'' st1;
                st3 = st2\<lparr>alerts_sent := alerts_sent st2 + 1\<rparr>
            in alert_log ''info'' ''System alert sent:'' st3))"

text \<open>
  The three senders under one name: a trigger is what a sender is called with, its type
  and identifier make the cool-down key, and only a compliance result with a critical
  violation goes past the cool-down.
\<close>

datatype trigger =
    ThreatTrigger analysis_result
  | ComplianceTrigger compliance_result
  | SystemTrigger string string

fun notify :: "env \<Rightarrow> string \<Rightarrow> nat \<Rightarrow> trigger \<Rightarrow> alert_state \<Rightarrow> alert_state" where
  "notify E uuid now (ThreatTrigger r) st = sendThreatAlert E uuid now r st"
| "notify E uuid now (ComplianceTrigger cr) st = sendComplianceAlert uuid now cr st"
| "notify E uuid now (SystemTrigger status msg) st = sendSystemAlert uuid now status msg st"

fun trigger_type :: "trigger \<Rightarrow> string" where
  "trigger_type (ThreatTrigger r) = ''threat''"
| "trigger_type (ComplianceTrigger cr) = ''compliance''"
| "trigger_type (SystemTrigger status msg) = ''system''"

fun trigger_identifier :: "env \<Rightarrow> trigger \<Rightarrow> string" where
  "trigger_identifier E (ThreatTrigger r) = threat_identifier E r"
| "trigger_identifier E (ComplianceTrigger cr) = ''general''"
| "trigger_identifier E (SystemTrigger status msg) = ''general''"

fun critical_trigger :: "trigger \<Rightarrow> bool" where
  "critical_trigger (ComplianceTrigger cr) = list_ex (\<lambda>v. viol_severity v = Critical) (violations cr)"
| "critical_trigger _ = False"

definition ttl_ms :: "trigger \<Rightarrow> nat" where
  "ttl_ms tr = alert_cooldown (trigger_type tr) * 1000"

lemma notify_cache [simp]:
  "alert_cache_up (notify E uuid now tr st) = alert_cache_up st"
  by (cases tr)
     (simp_all add: sendThreatAlert_def sendComplianceAlert_def sendSystemAlert_def Let_def
        setCooldown_def executeAlert_fields)

lemma notify_suppressed:
  "\<not> critical_trigger tr \<Longrightarrow>
   isInCooldown now st (trigger_type tr) (trigger_identifier E tr) \<Longrightarrow>
   dispatched (notify E uuid now tr st) = dispatched st
   \<and> cooldowns (notify E uuid now tr st) = cooldowns st"
  by (cases tr) (simp_all add: sendThreatAlert_def sendComplianceAlert_def sendSystemAlert_def Let_def)

lemma notify_sent:
  "\<not> critical_trigger tr \<Longrightarrow>
   \<not> isInCooldown now st (trigger_type tr) (trigger_identifier E tr) \<Longrightarrow>
   length (dispatched (notify E uuid now tr st)) = length (dispatched st) + 1
   \<and> (alert_cache_up st \<longrightarrow>
        cooldowns (notify E uuid now tr st) =
          (cooldowns st)(cooldown_key (trigger_type tr) (trigger_identifier E tr) \<mapsto> now + ttl_ms tr))"
  by (cases tr)
     (simp_all add: sendThreatAlert_def sendComplianceAlert_def sendSystemAlert_def Let_def
        setCooldown_def executeAlert_fields ttl_ms_def)

text \<open>
  C7. With a cache that answers and no cool-down running for the key at the first event:
  of two successive non-critical triggers with the same type and identifier, the second
  within the time to live of the key set by the first, exactly one is dispatched (the
  second leaves the list of dispatched alerts as it is); a third trigger at or after the
  expiry is dispatched again.
\<close>

theorem cooldown_suppression:
  assumes up: "alert_cache_up st"
    and idle: "\<not> isInCooldown t1 st (trigger_type tr1) (trigger_identifier E tr1)"
    and noncritical: "\<not> critical_trigger tr1" "\<not> critical_trigger tr2" "\<not> critical_trigger tr3"
    and same2: "trigger_type tr2 = trigger_type tr1"
               "trigger_identifier E tr2 = trigger_identifier E tr1"
    and same3: "trigger_type tr3 = trigger_type tr1"
               "trigger_identifier E tr3 = trigger_identifier E tr1"
    and within: "t1 \<le> t2" "t2 < t1 + ttl_ms tr1"
    and after: "t1 + ttl_ms tr1 \<le> t3"
  shows "length (dispatched (notify E u1 t1 tr1 st)) = length (dispatched st) + 1
     \<and> dispatched (notify E u2 t2 tr2 (notify E u1 t1 tr1 st)) =
         dispatched (notify E u1 t1 tr1 st)
     \<and> length (dispatched (notify E u3 t3 tr3
          (notify E u2 t2 tr2 (notify E u1 t1 tr1 st)))) = length (dispatched st) + 2"
proof -
  let ?k = "cooldown_key (trigger_type tr1) (trigger_identifier E tr1)"
  let ?s1 = "notify E u1 t1 tr1 st"
  let ?s2 = "notify E u2 t2 tr2 ?s1"
  have one: "length (dispatched ?s1) = length (dispatched st) + 1"
    and cd1: "cooldowns ?s1 = (cooldowns st)(?k \<mapsto> t1 + ttl_ms tr1)"
    using notify_sent [OF noncritical(1) idle, of u1] up by simp_all
  have in2: "isInCooldown t2 ?s1 (trigger_type tr2) (trigger_identifier E tr2)"
    using up within by (simp add: isInCooldown_def cd1 same2)
  have two: "dispatched ?s2 = dispatched ?s1" and cd2: "cooldowns ?s2 = cooldowns ?s1"
    using notify_suppressed [OF noncritical(2) in2, of u2] by simp_all
  have out3: "\<not> isInCooldown t3 ?s2 (trigger_type tr3) (trigger_identifier E tr3)"
    using after by (simp add: isInCooldown_def cd2 cd1 same3)
  have three: "length (dispatched (notify E u3 t3 tr3 ?s2)) = length (dispatched ?s2) + 1"
    using notify_sent [OF noncritical(3) out3, of u3] by simp
  show ?thesis using one two three by simp
qed

text \<open>
  Sample data: the alert manager with a cache that answers and no mail or webhook
  configured.
\<close>

definition initial_alert_state :: alert_state where
  "initial_alert_state =
     \<lparr>cooldowns = Map.empty, alert_cache_up = True, mail_configured = False, mail_ok = False,
      webhook_configured = False, webhook_ok = False, alerts_sent = 0, emails_sent = 0,
      webhooks_sent = 0, failed_deliveries = 0, last_alert = None, dispatched = [],
      audit_alerts = [], alert_logged = []\<rparr>"

theorem cooldown_suppression_witness:
  "alert_cache_up initial_alert_state
   \<and> \<not> isInCooldown 1000 initial_alert_state ''threat'' ''general''
   \<and> length (dispatched (notify (sample_env no_match) ''a-1'' 1000 (ThreatTrigger (initial_result noon))
        initial_alert_state)) = 1
   \<and> length (dispatched (notify (sample_env no_match) ''a-2'' 200000 (ThreatTrigger (initial_result noon))
        (notify (sample_env no_match) ''a-1'' 1000 (ThreatTrigger (initial_result noon))
           initial_alert_state))) = 1
   \<and> length (dispatched (notify (sample_env no_match) ''a-3'' 301000 (ThreatTrigger (initial_result noon))
        (notify (sample_env no_match) ''a-2'' 200000 (ThreatTrigger (initial_result noon))
        (notify (sample_env no_match) ''a-1'' 1000 (ThreatTrigger (initial_result noon))
           initial_alert_state)))) = 2"
proof -
  let ?tr = "ThreatTrigger (initial_result noon)"
  have id: "threat_identifier (sample_env no_match) (initial_result noon) = ''general''"
    by (simp add: threat_identifier_def initial_result_def)
  have up: "alert_cache_up initial_alert_state"
    by (simp add: initial_alert_state_def)
  have idle: "\<not> isInCooldown 1000 initial_alert_state ''threat'' ''general''"
    by (simp add: isInCooldown_def initial_alert_state_def)
  have ttl: "ttl_ms ?tr = 300000"
    by (simp add: ttl_ms_def alert_cooldown_def)
  have d0: "dispatched initial_alert_state = []"
    by (simp add: initial_alert_state_def)
  note th = cooldown_suppression [of initial_alert_state 1000 ?tr "sample_env no_match" ?tr ?tr
      200000 301000 "''a-1''" "''a-2''" "''a-3''"]
  show ?thesis
    using th up idle by (simp add: id ttl d0)
qed

section \<open>Properties of the service\<close>

text \<open>
  Sample data: a detector with the two blacklisted addresses and an empty cache; the
  service as its constructor leaves it; and the identifiers of one run.
\<close>

definition quiet_detector :: td_state where
  "quiet_detector =
     \<lparr>ipBlacklist = {''192.168.1.100'', ''10.0.0.1''}, cache_up = True,
      ip_requests = Map.empty, suspicious_score = Map.empty, recent_requests = Map.empty,
      threat_keys = [], threats_analyzed = 0, threats_detected = 0\<rparr>"

definition initial_service :: service where
  "initial_service =
     \<lparr>processed_events = 0, app_threats_detected = 0, app_alerts_sent = 0,
      app_constitutional_violations = 0, detector = quiet_detector,
      checker = \<lparr>checks_performed = 0, violations_detected = 0, compliance_score = 0\<rparr>,
      alertManager = initial_alert_state, auditLogger = initial_audit_state, app_logged = []\<rparr>"

definition sample_ids :: draws where
  "sample_ids = \<lparr>threat_alert_id = ''a-1'', threat_entry_id = ''e-1'',
     compliance_alert_id = ''a-2'', compliance_entry_id = ''e-2''\<rparr>"

subsection \<open>An event that is neither a threat nor a violation\<close>

lemma night_event_valid: "validateSecurityEvent (sample_env rx) night_event = Inr True"
  by (simp add: validateSecurityEvent_def night_event_def sample_env_def Let_def)

lemma analyzeThreat_clean:
  "isThreat (fst (analyzeThreat (sample_env no_match) noon quiet_detector night_event)) = False"
proof -
  have ip: "analyzeIPThreat noon night_event
        (initial_result noon, quiet_detector\<lparr>threats_analyzed := threats_analyzed quiet_detector + 1\<rparr>)
     = (initial_result noon,
        quiet_detector\<lparr>threats_analyzed := 1,
          ip_requests := [''203.0.113.7'' \<mapsto> (1, 1714564860000)]\<rparr>)"
    by (simp add: analyzeIPThreat_def night_event_fields Let_def getIPRequestCount_def
        quiet_detector_def noon_def)
  show ?thesis
    unfolding analyzeThreat_def Let_def ip fst_conv snd_conv
    by (simp add: analyzeGeolocation_unknown analyzeConstitutionalCompliance_no_match
        analyzeAnomalousActivity_quiet analyzePatternThreat_no_match analyzeUserAgent_absent
        night_event_fields quiet_detector_def calculateThreatScore_def initial_result_def)
qed

lemma checkEventCompliance_clean:
  "compliant (fst (checkEventCompliance (sample_env no_match) now st ev))"
proof -
  have "no_principle_pattern_matches (sample_env no_match) content" for content
    by (simp add: no_principle_pattern_matches_def sample_env_def no_match_def)
  then have "\<And>r content. foldl (principle_step (sample_env no_match) content) r constitutionalPrinciples = r"
    unfolding no_principle_pattern_matches_def by (rule foldl_principle_step_clean)
  then show ?thesis
    by (simp add: checkEventCompliance_def checkCompliance_def Let_def)
qed

lemma threat_phase_clean:
  "threat_phase (real_scorers (sample_env no_match) noon) (sample_env no_match) noon ids night_event
     (sv\<lparr>detector := quiet_detector\<rparr>) =
   (Inr (), sv\<lparr>detector := snd (analyzeThreat (sample_env no_match) noon quiet_detector night_event)\<rparr>)"
  by (simp add: threat_phase_def real_scorers_def Let_def analyzeThreat_clean)

lemma compliance_phase_clean:
  "compliance_phase (real_scorers (sample_env no_match) noon) (sample_env no_match) noon ids ev sv =
   (Inr (), sv\<lparr>checker := snd (checkEventCompliance (sample_env no_match) (now_ms noon) (checker sv) ev)\<rparr>)"
  by (simp add: compliance_phase_def real_scorers_def Let_def checkEventCompliance_clean)

text \<open>
  C1 as stated fails: the event \<open>night_event\<close> passes \<open>validateSecurityEvent\<close>, is no
  threat and is compliant, and \<open>processSecurityEvent\<close> returns with nothing in the
  buffer of the audit logger and nothing in its store. The two calls of
  \<open>logSecurityEvent\<close> stand inside \<open>if (threatResult.isThreat)\<close> and
  \<open>if (!complianceResult.compliant)\<close>.
\<close>

theorem clean_event_leaves_no_audit_entry:
  "validateSecurityEvent (sample_env no_match) night_event = Inr True
   \<and> fst (processSecurityEvent (real_scorers (sample_env no_match) noon) (sample_env no_match)
        noon sample_ids night_event initial_service) = Inr ()
   \<and> logBuffer (auditLogger (snd (processSecurityEvent (real_scorers (sample_env no_match) noon)
        (sample_env no_match) noon sample_ids night_event initial_service))) = []
   \<and> security_audit_logs (auditLogger (snd (processSecurityEvent
        (real_scorers (sample_env no_match) noon)
        (sample_env no_match) noon sample_ids night_event initial_service))) = []"
proof -
  have sv0: "initial_service\<lparr>processed_events := processed_events initial_service + 1\<rparr>
      = (initial_service\<lparr>processed_events := 1\<rparr>)\<lparr>detector := quiet_detector\<rparr>"
    by (simp add: initial_service_def)
  show ?thesis
    unfolding processSecurityEvent_def Let_def night_event_valid sv0 threat_phase_clean
      compliance_phase_clean
    by (simp add: initial_service_def initial_audit_state_def)
qed


subsection \<open>The entries an accepted event leaves\<close>

text \<open>
  The entry logged for a threat, and the entry logged for a violation: none where there
  is none.
\<close>

definition threat_entries ::
  "env \<Rightarrow> clock \<Rightarrow> draws \<Rightarrow> string \<Rightarrow> json \<Rightarrow> analysis_result \<Rightarrow> audit_entry list" where
  "threat_entries E c ids key eventData r =
     (if isThreat r
      then [make_entry E key (threat_entry_id ids) (now_ms c) ''threat_detected''
              (threat_payload E c eventData r) []]
      else [])"

definition violation_entries ::
  "env \<Rightarrow> clock \<Rightarrow> draws \<Rightarrow> string \<Rightarrow> json \<Rightarrow> compliance_result \<Rightarrow> audit_entry list" where
  "violation_entries E c ids key eventData cr =
     (if \<not> compliant cr
      then [make_entry E key (compliance_entry_id ids) (now_ms c) ''constitutional_violation''
              (violation_payload E c eventData cr) []]
      else [])"

text \<open>
  The logger can take one more entry: the buffer stays below the batch size, or the
  store is connected and accepts the bulk insert of the flush.
\<close>

definition can_record :: "nat \<Rightarrow> audit_state \<Rightarrow> bool" where
  "can_record n st = (length (logBuffer st) + n < batch_size \<or> (db_ready st \<and> db_ok st))"

lemma threat_phase_quiet:
  assumes "fst (analyze_fn S (detector sv) ev) = Inr r" and "\<not> isThreat r"
  shows "fst (threat_phase S E c ids ev sv) = Inr ()
     \<and> alertManager (snd (threat_phase S E c ids ev sv)) = alertManager sv
     \<and> auditLogger (snd (threat_phase S E c ids ev sv)) = auditLogger sv
     \<and> checker (snd (threat_phase S E c ids ev sv)) = checker sv"
  using assms by (simp add: threat_phase_def Let_def)

lemma compliance_phase_quiet:
  assumes "fst (check_fn S (checker sv) ev) = Inr cr" and "compliant cr"
  shows "fst (compliance_phase S E c ids ev sv) = Inr ()
     \<and> alertManager (snd (compliance_phase S E c ids ev sv)) = alertManager sv
     \<and> auditLogger (snd (compliance_phase S E c ids ev sv)) = auditLogger sv"
  using assms by (simp add: compliance_phase_def Let_def)

lemma threat_phase_records:
  assumes an: "fst (analyze_fn S (detector sv) ev) = Inr r"
    and room: "can_record 2 (auditLogger sv)"
  shows "fst (threat_phase S E c ids ev sv) = Inr ()
     \<and> recorded (auditLogger (snd (threat_phase S E c ids ev sv))) =
         recorded (auditLogger sv)
           @ map stored_doc (threat_entries E c ids (encryptionKey (auditLogger sv)) ev r)
     \<and> encryptionKey (auditLogger (snd (threat_phase S E c ids ev sv))) =
         encryptionKey (auditLogger sv)
     \<and> checker (snd (threat_phase S E c ids ev sv)) = checker sv
     \<and> can_record 1 (auditLogger (snd (threat_phase S E c ids ev sv)))"
proof (cases "isThreat r")
  case False
  then show ?thesis
    using an room by (auto simp: threat_phase_def Let_def threat_entries_def can_record_def)
next
  case True
  have one: "length (logBuffer (auditLogger sv)) + 1 < batch_size
      \<or> (db_ready (auditLogger sv) \<and> db_ok (auditLogger sv))"
    using room by (auto simp: can_record_def)
  note lg = logSecurityEvent_records [OF one, of E "threat_entry_id ids" "now_ms c"
      "''threat_detected''" "threat_payload E c ev r" "[]"]
  have next_room: "can_record 1 (snd (logSecurityEvent E (threat_entry_id ids) (now_ms c)
      ''threat_detected'' (threat_payload E c ev r) [] (auditLogger sv)))"
    using lg room by (auto simp: can_record_def)
  show ?thesis
    using an True lg next_room
    by (simp add: threat_phase_def Let_def threat_entries_def)
qed

lemma compliance_phase_records:
  assumes ch: "fst (check_fn S (checker sv) ev) = Inr cr"
    and room: "can_record 1 (auditLogger sv)"
  shows "fst (compliance_phase S E c ids ev sv) = Inr ()
     \<and> recorded (auditLogger (snd (compliance_phase S E c ids ev sv))) =
         recorded (auditLogger sv)
           @ map stored_doc (violation_entries E c ids (encryptionKey (auditLogger sv)) ev cr)"
proof (cases "compliant cr")
  case True
  then show ?thesis
    using ch by (simp add: compliance_phase_def Let_def violation_entries_def)
next
  case False
  have one: "length (logBuffer (auditLogger sv)) + 1 < batch_size
      \<or> (db_ready (auditLogger sv) \<and> db_ok (auditLogger sv))"
    using room by (simp add: can_record_def)
  note lg = logSecurityEvent_records [OF one, of E "compliance_entry_id ids" "now_ms c"
      "''constitutional_violation''" "violation_payload E c ev cr" "[]"]
  show ?thesis
    using ch False lg
    by (simp add: compliance_phase_def Let_def violation_entries_def)
qed

text \<open>
  C1 as amended. For an accepted event on which both scorers return: when the event is
  neither a threat nor a violation, \<open>processSecurityEvent\<close> returns and leaves the audit
  logger and the alert manager as they were, so no entry is recorded. When the logger can
  take the entries (the buffer stays below the batch size during the run, or the store is
  connected and accepts the bulk insert), it returns and the audit trail gains one entry
  of type \<open>threat_detected\<close> if the event is a threat and one of type
  \<open>constitutional_violation\<close> if it is not compliant, buffered or stored by the flush,
  and nothing else.
\<close>

theorem audit_entries_of_an_accepted_event:
  assumes valid: "validateSecurityEvent E ev = Inr True"
    and an: "fst (analyze_fn S (detector sv) ev) = Inr r"
    and ch: "fst (check_fn S (checker sv) ev) = Inr cr"
  shows "(\<not> isThreat r \<and> compliant cr \<longrightarrow>
          fst (processSecurityEvent S E c ids ev sv) = Inr ()
          \<and> auditLogger (snd (processSecurityEvent S E c ids ev sv)) = auditLogger sv
          \<and> alertManager (snd (processSecurityEvent S E c ids ev sv)) = alertManager sv)
     \<and> (can_record 2 (auditLogger sv) \<longrightarrow>
          fst (processSecurityEvent S E c ids ev sv) = Inr ()
          \<and> recorded (auditLogger (snd (processSecurityEvent S E c ids ev sv))) =
              recorded (auditLogger sv)
                @ map stored_doc
                    (threat_entries E c ids (encryptionKey (auditLogger sv)) ev r
                     @ violation_entries E c ids (encryptionKey (auditLogger sv)) ev cr))"
proof -
  define sv0 where "sv0 = sv\<lparr>processed_events := processed_events sv + 1\<rparr>"
  define sv1 where "sv1 = snd (threat_phase S E c ids ev sv0)"
  have an0: "fst (analyze_fn S (detector sv0) ev) = Inr r"
    using an by (simp add: sv0_def)
  have run: "processSecurityEvent S E c ids ev sv =
     (case fst (threat_phase S E c ids ev sv0) of
        Inl e \<Rightarrow> (Inl e, app_log ''error'' ''Security event processing error:'' sv1)
      | Inr u \<Rightarrow>
          (case fst (compliance_phase S E c ids ev sv1) of
             Inl e \<Rightarrow> (Inl e, app_log ''error'' ''Security event processing error:''
                          (snd (compliance_phase S E c ids ev sv1)))
           | Inr u' \<Rightarrow> (Inr (), snd (compliance_phase S E c ids ev sv1))))"
    unfolding processSecurityEvent_def Let_def valid
    unfolding sv0_def [symmetric]
    unfolding sv1_def [symmetric]
    by simp
  have quiet: "fst (processSecurityEvent S E c ids ev sv) = Inr ()
          \<and> auditLogger (snd (processSecurityEvent S E c ids ev sv)) = auditLogger sv
          \<and> alertManager (snd (processSecurityEvent S E c ids ev sv)) = alertManager sv"
    if clean: "\<not> isThreat r \<and> compliant cr"
  proof -
    have tq: "fst (threat_phase S E c ids ev sv0) = Inr ()
        \<and> alertManager sv1 = alertManager sv \<and> auditLogger sv1 = auditLogger sv
        \<and> checker sv1 = checker sv"
      using threat_phase_quiet [OF an0, of E c ids] clean by (simp add: sv1_def sv0_def)
    then have ch1: "fst (check_fn S (checker sv1) ev) = Inr cr"
      using ch by simp
    note cq = compliance_phase_quiet [OF ch1, of E c ids]
    show ?thesis
      unfolding run using tq cq clean by simp
  qed
  have logs: "fst (processSecurityEvent S E c ids ev sv) = Inr ()
          \<and> recorded (auditLogger (snd (processSecurityEvent S E c ids ev sv))) =
              recorded (auditLogger sv)
                @ map stored_doc
                    (threat_entries E c ids (encryptionKey (auditLogger sv)) ev r
                     @ violation_entries E c ids (encryptionKey (auditLogger sv)) ev cr)"
    if room: "can_record 2 (auditLogger sv)"
  proof -
    have room0: "can_record 2 (auditLogger sv0)"
      using room by (simp add: sv0_def)
    have tp: "fst (threat_phase S E c ids ev sv0) = Inr ()
        \<and> recorded (auditLogger sv1) =
            recorded (auditLogger sv)
              @ map stored_doc (threat_entries E c ids (encryptionKey (auditLogger sv)) ev r)
        \<and> encryptionKey (auditLogger sv1) = encryptionKey (auditLogger sv)
        \<and> checker sv1 = checker sv
        \<and> can_record 1 (auditLogger sv1)"
      using threat_phase_records [OF an0 room0, of E c ids] by (simp add: sv1_def sv0_def)
    then have ch1: "fst (check_fn S (checker sv1) ev) = Inr cr"
      and room1: "can_record 1 (auditLogger sv1)"
      using ch by simp_all
    note cp = compliance_phase_records [OF ch1 room1, of E c ids]
    show ?thesis
      unfolding run using tp cp by simp
  qed
  show ?thesis using quiet logs by blast
qed

subsection \<open>A run that logs a threat, and one that logs nothing\<close>

lemma blacklisted_event_valid: "validateSecurityEvent (sample_env rx) blacklisted_event = Inr True"
  by (simp add: validateSecurityEvent_def blacklisted_event_def sample_env_def Let_def)

definition busy_service :: service where
  "busy_service = initial_service\<lparr>detector := busy_state\<rparr>"

text \<open>
  The theorem at the event from a blacklisted address, which leaves one entry of type
  \<open>threat_detected\<close>, and at the clean event, which leaves the audit logger as it was.
\<close>

theorem audit_entries_witness:
  "validateSecurityEvent (sample_env no_match) blacklisted_event = Inr True
   \<and> can_record 2 (auditLogger busy_service)
   \<and> fst (processSecurityEvent (real_scorers (sample_env no_match) noon) (sample_env no_match)
        noon sample_ids blacklisted_event busy_service) = Inr ()
   \<and> map event_type (recorded (auditLogger (snd (processSecurityEvent
        (real_scorers (sample_env no_match) noon) (sample_env no_match)
        noon sample_ids blacklisted_event busy_service)))) = [''threat_detected'']
   \<and> validateSecurityEvent (sample_env no_match) night_event = Inr True
   \<and> \<not> isThreat (fst (analyzeThreat (sample_env no_match) noon quiet_detector night_event))
   \<and> compliant (fst (checkEventCompliance (sample_env no_match) (now_ms noon)
        (checker initial_service) night_event))
   \<and> auditLogger (snd (processSecurityEvent (real_scorers (sample_env no_match) noon)
        (sample_env no_match) noon sample_ids night_event initial_service)) = initial_audit_state"
proof -
  let ?E = "sample_env no_match"
  let ?S = "real_scorers ?E noon"
  let ?r = "fst (analyzeThreat ?E noon busy_state blacklisted_event)"
  let ?cr = "fst (checkEventCompliance ?E (now_ms noon) (checker busy_service) blacklisted_event)"
  let ?r' = "fst (analyzeThreat ?E noon quiet_detector night_event)"
  let ?cr' = "fst (checkEventCompliance ?E (now_ms noon) (checker initial_service) night_event)"
  have valid: "validateSecurityEvent ?E blacklisted_event = Inr True"
    by (rule blacklisted_event_valid)
  have an: "fst (analyze_fn ?S (detector busy_service) blacklisted_event) = Inr ?r"
    by (simp add: real_scorers_def busy_service_def)
  have ch: "fst (check_fn ?S (checker busy_service) blacklisted_event) = Inr ?cr"
    by (simp add: real_scorers_def)
  have room: "can_record 2 (auditLogger busy_service)"
    by (simp add: can_record_def busy_service_def initial_service_def initial_audit_state_def
        batch_size_def)
  have threat: "isThreat ?r"
    by (simp add: analyzeThreat_blacklisted_run)
  have clean: "compliant ?cr"
    by (rule checkEventCompliance_clean)
  have none: "recorded (auditLogger busy_service) = []"
    by (simp add: recorded_def busy_service_def initial_service_def initial_audit_state_def)
  note th = audit_entries_of_an_accepted_event [OF valid an ch, of noon sample_ids]
  have first: "fst (processSecurityEvent ?S ?E noon sample_ids blacklisted_event busy_service)
        = Inr ()
     \<and> map event_type (recorded (auditLogger (snd (processSecurityEvent ?S ?E
          noon sample_ids blacklisted_event busy_service)))) = [''threat_detected'']"
    using room th threat clean
    by (simp add: none threat_entries_def violation_entries_def make_entry_def Let_def
        stored_doc_def)
  have valid': "validateSecurityEvent ?E night_event = Inr True"
    by (rule night_event_valid)
  have an': "fst (analyze_fn ?S (detector initial_service) night_event) = Inr ?r'"
    by (simp add: real_scorers_def initial_service_def)
  have ch': "fst (check_fn ?S (checker initial_service) night_event) = Inr ?cr'"
    by (simp add: real_scorers_def)
  have quiet: "\<not> isThreat ?r'"
    by (simp add: analyzeThreat_clean)
  have clean': "compliant ?cr'"
    by (rule checkEventCompliance_clean)
  note th' = audit_entries_of_an_accepted_event [OF valid' an' ch', of noon sample_ids]
  have second: "auditLogger (snd (processSecurityEvent ?S ?E noon sample_ids night_event
      initial_service)) = initial_audit_state"
    using th' quiet clean' by (simp add: initial_service_def)
  show ?thesis
    using valid room first valid' quiet clean' second by blast
qed

subsection \<open>A scorer that throws\<close>







subsection \<open>The daily integrity check\<close>

text \<open>The line logged for an entry whose hash does not match.\<close>

definition violation_line :: "string \<times> string" where
  "violation_line = (''error'', ''Integrity violation detected:'')"

lemma foldl_check_step_logged:
  "logged (snd (foldl (check_step E) (a, st) logs)) =
     logged st @ replicate (length (filter (\<lambda>e. \<not> hash_ok E e) logs)) violation_line"
proof (induction logs arbitrary: a st)
  case Nil
  then show ?case by simp
next
  case (Cons l logs)
  show ?case
  proof (cases "hash_ok E l")
    case True
    then have "check_step E (a, st) l = ((fst a + 1, snd a), st)"
      by (simp add: check_step_def Let_def hash_ok_def)
    then show ?thesis using Cons.IH True by simp
  next
    case False
    then have "check_step E (a, st) l =
        ((fst a, snd a + 1), log_line ''error'' ''Integrity violation detected:'' st)"
      by (simp add: check_step_def Let_def hash_ok_def)
    then show ?thesis
      using Cons.IH False
      by (simp add: log_line_def violation_line_def replicate_append_same)
  qed
qed

text \<open>The number of yesterday's entries whose stored hash is not the recomputed digest.\<close>

definition mismatches :: "env \<Rightarrow> nat \<Rightarrow> audit_state \<Rightarrow> nat" where
  "mismatches E now st =
     length (filter (\<lambda>e. \<not> hash_ok E e) (logs_of_day (yesterday_of now) (security_audit_logs st)))"

lemma performDailyIntegrityCheck_effects:
  assumes ok: "db_ok st"
  shows "integrity_violations (performDailyIntegrityCheck E now st) =
           integrity_violations st + mismatches E now st
     \<and> logged (performDailyIntegrityCheck E now st) =
           logged st @ replicate (mismatches E now st) violation_line
             @ [(''info'', ''Daily integrity check completed:'')]"
proof -
  let ?logs = "logs_of_day (yesterday_of now) (security_audit_logs st)"
  have cnt: "fst (foldl (check_step E) ((0, 0), st) ?logs) =
      (length (filter (hash_ok E) ?logs), length (filter (\<lambda>e. \<not> hash_ok E e) ?logs))"
    using foldl_check_step_counts [of E 0 0 st ?logs] by simp
  note lg = foldl_check_step_logged [of E "(0, 0)" st ?logs]
  note stt = foldl_check_step_state [of E "((0, 0), st)" ?logs]
  show ?thesis
    using ok stt
    by (simp add: performDailyIntegrityCheck_def Let_def cnt lg mismatches_def log_line_def)
qed

text \<open>
  C5 as amended. The daily check never touches the alert manager: no alert is
  dispatched and no cool-down is read or set. When it runs (at three o'clock) on a store
  that answers, the report stored for yesterday carries the number of mismatching entries
  as \<open>invalid_logs\<close>, the counter \<open>integrity_violations\<close> grows by that number, and one
  error line is logged for each mismatching entry.
\<close>

theorem integrity_violation_is_reported_not_alerted:
  "alertManager (integrity_tick E c sv) = alertManager sv
   \<and> (local_hour c = 3 \<and> local_minute c = 0 \<and> db_ok (auditLogger sv) \<longrightarrow>
        (\<exists>r. report_of (auditLogger (integrity_tick E c sv)) (yesterday_of (now_ms c)) = Some r
           \<and> invalid_logs r = mismatches E (now_ms c) (auditLogger sv))
        \<and> integrity_violations (auditLogger (integrity_tick E c sv)) =
            integrity_violations (auditLogger sv) + mismatches E (now_ms c) (auditLogger sv)
        \<and> logged (auditLogger (integrity_tick E c sv)) =
            logged (auditLogger sv)
              @ replicate (mismatches E (now_ms c) (auditLogger sv)) violation_line
              @ [(''info'', ''Daily integrity check completed:'')])"
proof (intro conjI impI)
  show "alertManager (integrity_tick E c sv) = alertManager sv"
    by (simp add: integrity_tick_def)
next
  assume a: "local_hour c = 3 \<and> local_minute c = 0 \<and> db_ok (auditLogger sv)"
  then show "\<exists>r. report_of (auditLogger (integrity_tick E c sv)) (yesterday_of (now_ms c)) = Some r
           \<and> invalid_logs r = mismatches E (now_ms c) (auditLogger sv)"
    using performDailyIntegrityCheck_report [of "auditLogger sv" E "now_ms c"]
    by (simp add: integrity_tick_def mismatches_def)
next
  assume a: "local_hour c = 3 \<and> local_minute c = 0 \<and> db_ok (auditLogger sv)"
  then show "integrity_violations (auditLogger (integrity_tick E c sv)) =
            integrity_violations (auditLogger sv) + mismatches E (now_ms c) (auditLogger sv)"
    using performDailyIntegrityCheck_effects [of "auditLogger sv" E "now_ms c"]
    by (simp add: integrity_tick_def)
next
  assume a: "local_hour c = 3 \<and> local_minute c = 0 \<and> db_ok (auditLogger sv)"
  then show "logged (auditLogger (integrity_tick E c sv)) =
            logged (auditLogger sv)
              @ replicate (mismatches E (now_ms c) (auditLogger sv)) violation_line
              @ [(''info'', ''Daily integrity check completed:'')]"
    using performDailyIntegrityCheck_effects [of "auditLogger sv" E "now_ms c"]
    by (simp add: integrity_tick_def)
qed

text \<open>
  Sample data: a stored entry of 1 May 2024 whose hash has been overwritten, and the
  clock at three the next morning.
\<close>

definition forged_entry :: audit_entry where
  "forged_entry = (sample_entry ''id-1'')\<lparr>hash := Some ''forged''\<rparr>"

definition tampered_service :: service where
  "tampered_service =
     initial_service\<lparr>auditLogger := initial_audit_state\<lparr>security_audit_logs := [forged_entry]\<rparr>\<rparr>"

definition next_morning :: clock where
  "next_morning = \<lparr>now_ms = 1714618800000, local_hour = 3, local_minute = 0\<rparr>"

lemma forged_entry_mismatch: "\<not> hash_ok (sample_env no_match) forged_entry"
  by (simp add: hash_ok_def forged_entry_def calculateEntryHash_def sample_env_def
      quoted_def hashData_def)

lemma forged_entry_day:
  "logs_of_day (yesterday_of 1714618800000) [forged_entry] = [forged_entry]"
  by (simp add: logs_of_day_def yesterday_of_def day_of_def forged_entry_def sample_entry_def
      make_entry_timestamp)

text \<open>
  C5 as stated fails: with one forged entry the check reports \<open>invalid_logs = 1\<close>, and
  the alert manager has dispatched nothing and counted no alert.
\<close>

theorem integrity_violation_sends_no_alert:
  "report_of (auditLogger (integrity_tick (sample_env no_match) next_morning tampered_service))
       (yesterday_of 1714618800000)
     = Some \<lparr>total_logs = 1, valid_logs = 0, invalid_logs = 1, integrity_score = 0,
             report_checked_at = 1714618800000\<rparr>
   \<and> dispatched (alertManager (integrity_tick (sample_env no_match) next_morning tampered_service)) = []
   \<and> alerts_sent (alertManager (integrity_tick (sample_env no_match) next_morning tampered_service)) = 0"
proof -
  have ok: "db_ok (auditLogger tampered_service)"
    by (simp add: tampered_service_def initial_audit_state_def)
  have logs: "security_audit_logs (auditLogger tampered_service) = [forged_entry]"
    by (simp add: tampered_service_def)
  have rep: "report_of (performDailyIntegrityCheck (sample_env no_match) 1714618800000
        (auditLogger tampered_service)) (yesterday_of 1714618800000)
     = Some \<lparr>total_logs = 1, valid_logs = 0, invalid_logs = 1, integrity_score = 0,
             report_checked_at = 1714618800000\<rparr>"
    using performDailyIntegrityCheck_report [OF ok, of "sample_env no_match" 1714618800000]
    by (simp add: logs forged_entry_day forged_entry_mismatch)
  show ?thesis
    using rep
    by (simp add: integrity_tick_def next_morning_def)
       (simp add: tampered_service_def initial_service_def initial_alert_state_def)
qed

theorem integrity_report_witness:
  "local_hour next_morning = 3 \<and> local_minute next_morning = 0
   \<and> db_ok (auditLogger tampered_service)
   \<and> mismatches (sample_env no_match) (now_ms next_morning) (auditLogger tampered_service) = 1
   \<and> integrity_violations (auditLogger (integrity_tick (sample_env no_match) next_morning
        tampered_service)) = 1
   \<and> alertManager (integrity_tick (sample_env no_match) next_morning tampered_service)
       = alertManager tampered_service"
proof -
  have ok: "db_ok (auditLogger tampered_service)"
    by (simp add: tampered_service_def initial_audit_state_def)
  have clk: "local_hour next_morning = 3 \<and> local_minute next_morning = 0"
    by (simp add: next_morning_def)
  have mm: "mismatches (sample_env no_match) (now_ms next_morning) (auditLogger tampered_service) = 1"
    by (simp add: mismatches_def next_morning_def tampered_service_def forged_entry_day
        forged_entry_mismatch)
  have iv0: "integrity_violations (auditLogger tampered_service) = 0"
    by (simp add: tampered_service_def initial_audit_state_def)
  show ?thesis
    using ok clk mm iv0
      integrity_violation_is_reported_not_alerted
        [of "sample_env no_match" next_morning tampered_service]
    by simp
qed

end
